theory Spec2Isabelle
  imports Complex_Main "HOL-Library.Sublist"
begin

section \<open>Strings, JSON values and exceptions\<close>

text \<open>
  A Python \<open>str\<close> is a sequence of Unicode code points: free text typed by the user and
  strings coming from the ledger backend are lists of code points. Callback payloads and
  command names are issued by the bot's own keyboards and are plain ASCII; they are kept
  as \<open>string\<close>, and \<open>ustr_of\<close> reads an ASCII literal as a code-point list.
\<close>

type_synonym ustr = "nat list"

definition ustr_of :: "string \<Rightarrow> ustr" where
  "ustr_of s = map of_char s"

text \<open>A decoded JSON value, with Python's truthiness (\<open>not x\<close>, \<open>x or y\<close>).\<close>

datatype jval =
    JNull
  | JBool bool
  | JNum rat
  | JStr ustr
  | JArr "jval list"
  | JObj "(ustr \<times> jval) list"

fun truthy :: "jval \<Rightarrow> bool" where
  "truthy JNull = False"
| "truthy (JBool b) = b"
| "truthy (JNum n) = (n \<noteq> 0)"
| "truthy (JStr s) = (s \<noteq> [])"
| "truthy (JArr xs) = (xs \<noteq> [])"
| "truthy (JObj kvs) = (kvs \<noteq> [])"

text \<open>
  The exceptions the program can raise. \<open>RuntimeError\<close> carries the argument it was
  built with; \<open>TimeoutError\<close> and \<open>ClientError\<close> are what the HTTP client raises by itself
  when the 12 second budget runs out or the connection fails.
\<close>

datatype exc =
    RuntimeError jval
  | NameError string
  | UnboundLocalError string
  | TypeError
  | IndexError
  | KeyError string
  | AttributeError
  | TimeoutError
  | ClientError
  | UnicodeDecodeError

text \<open>
  A Python \<open>float\<close> (IEEE binary64): a sign bit with a finite magnitude, or an infinity.
  \<open>Finite True 0\<close> is \<open>-0.0\<close>. Not-a-number never arises in this program.
\<close>

datatype pyfloat = Finite bool rat | Infinity bool

text \<open>Python's \<open>x < 0\<close> on a float (\<open>-0.0 < 0\<close> is false).\<close>

fun float_lt0 :: "pyfloat \<Rightarrow> bool" where
  "float_lt0 (Finite neg q) = (neg \<and> q \<noteq> 0)"
| "float_lt0 (Infinity neg) = neg"

section \<open>Amount parsing\<close>

subsection \<open>String operations\<close>

text \<open>
  \<open>str.isspace\<close> of one code point; it is also what \<open>\s\<close> matches in a \<open>str\<close> pattern.
\<close>

definition is_space :: "nat \<Rightarrow> bool" where
  "is_space c = ((9 \<le> c \<and> c \<le> 13) \<or> (28 \<le> c \<and> c \<le> 32) \<or> c = 0x85 \<or> c = 0xA0
      \<or> c = 0x1680 \<or> (0x2000 \<le> c \<and> c \<le> 0x200A) \<or> c = 0x2028 \<or> c = 0x2029
      \<or> c = 0x202F \<or> c = 0x205F \<or> c = 0x3000)"

definition strip :: "ustr \<Rightarrow> ustr" where
  "strip s = rev (dropWhile is_space (rev (dropWhile is_space s)))"

text \<open>
  \<open>str.lower\<close>, one code point at a time: Latin and Cyrillic capitals and the Kelvin sign
  (U+212A, whose lower case is \<open>k\<close>). Every other cased letter lowers to letters that
  are neither digits, separators, the sign, white space nor \<open>k\<close>; the parser deletes
  them whatever they are, so they are left as they stand.
\<close>

definition lower_cp :: "nat \<Rightarrow> nat" where
  "lower_cp c =
     (if 0x41 \<le> c \<and> c \<le> 0x5A then c + 0x20
      else if 0x410 \<le> c \<and> c \<le> 0x42F then c + 0x20
      else if 0x400 \<le> c \<and> c \<le> 0x40F then c + 0x50
      else if c = 0x212A then 0x6B
      else c)"

definition is_digit :: "nat \<Rightarrow> bool" where
  "is_digit c = (0x30 \<le> c \<and> c \<le> 0x39)"

text \<open>Comma (U+002C) or full stop (U+002E).\<close>

definition is_sep :: "nat \<Rightarrow> bool" where
  "is_sep c = (c = 0x2C \<or> c = 0x2E)"

text \<open>\<open>s.rfind(c)\<close> for a character that occurs in \<open>s\<close>.\<close>

definition rfind :: "nat \<Rightarrow> ustr \<Rightarrow> nat" where
  "rfind c s = length s - 1 - length (takeWhile (\<lambda>x. x \<noteq> c) (rev s))"

subsection \<open>Binary64 arithmetic\<close>

text \<open>
  A non-negative exact value is a fraction (numerator, denominator). Every float
  operation of the parser computes the exact result and rounds it to the nearest
  double, ties to even: \<open>to_double n d\<close> is the double nearest to \<open>n / d\<close>, or \<open>None\<close>
  when the rounded value does not fit (the operation yields an infinity).
\<close>

type_synonym frac = "nat \<times> nat"

definition round_half_even :: "nat \<Rightarrow> nat \<Rightarrow> nat" where
  "round_half_even n d =
     (if 2 * (n mod d) < d then n div d
      else if d < 2 * (n mod d) then n div d + 1
      else if even (n div d) then n div d else n div d + 1)"

fun bitlen :: "nat \<Rightarrow> nat" where
  "bitlen n = (if n = 0 then 0 else Suc (bitlen (n div 2)))"

declare bitlen.simps [simp del]

text \<open>The integer part of the binary logarithm of \<open>n / d\<close>, for positive \<open>n\<close> and \<open>d\<close>.\<close>

definition floor_log2 :: "nat \<Rightarrow> nat \<Rightarrow> int" where
  "floor_log2 n d =
     (if (if 0 \<le> int (bitlen n) - int (bitlen d)
          then d * 2 ^ nat (int (bitlen n) - int (bitlen d)) \<le> n
          else d \<le> n * 2 ^ nat (int (bitlen d) - int (bitlen n)))
      then int (bitlen n) - int (bitlen d)
      else int (bitlen n) - int (bitlen d) - 1)"

text \<open>
  The exponent of the last mantissa bit: 52 below the leading bit, and never below
  the exponent of the subnormals.
\<close>

definition ulp_exp :: "nat \<Rightarrow> nat \<Rightarrow> int" where
  "ulp_exp n d = max (floor_log2 n d - 52) (- 1074)"

definition round_at :: "int \<Rightarrow> nat \<Rightarrow> nat \<Rightarrow> frac option" where
  "round_at p n d =
     (if 0 \<le> p
      then (if 2 ^ 1024 \<le> round_half_even n (d * 2 ^ nat p) * 2 ^ nat p then None
            else Some (round_half_even n (d * 2 ^ nat p) * 2 ^ nat p, 1))
      else Some (round_half_even (n * 2 ^ nat (- p)) d, 2 ^ nat (- p)))"

definition to_double :: "nat \<Rightarrow> nat \<Rightarrow> frac option" where
  "to_double n d = (if n = 0 then Some (0, 1) else round_at (ulp_exp n d) n d)"

text \<open>\<open>x * mult\<close> for the multiplier 1.0 or 1000.0, and \<open>round(x, 2)\<close>, on magnitudes.\<close>

definition float_mul :: "frac option \<Rightarrow> nat \<Rightarrow> frac option" where
  "float_mul x k = (case x of None \<Rightarrow> None | Some (n, d) \<Rightarrow> to_double (n * k) d)"

definition round2 :: "frac option \<Rightarrow> frac option" where
  "round2 x =
     (case x of None \<Rightarrow> None | Some (n, d) \<Rightarrow> to_double (round_half_even (n * 100) d) 100)"

definition mk_float :: "bool \<Rightarrow> frac option \<Rightarrow> pyfloat" where
  "mk_float neg x =
     (case x of None \<Rightarrow> Infinity neg | Some (n, d) \<Rightarrow> Finite neg (of_nat n / of_nat d))"

subsection \<open>The parser\<close>

definition digits_value :: "ustr \<Rightarrow> nat" where
  "digits_value ds = foldl (\<lambda>n c. 10 * n + (c - 0x30)) 0 ds"

text \<open>
  \<open>float(s)\<close> for a string of digits, full stops and minus signs (nothing else is left
  when it is called): an optional sign, then digits with an optional point, or a point
  followed by digits. \<open>None\<close> is the \<open>ValueError\<close>. The result is the sign and the
  magnitude.
\<close>

definition float_body :: "ustr \<Rightarrow> frac option option" where
  "float_body b =
     (case dropWhile is_digit b of
        [] \<Rightarrow> if b = [] then None else Some (to_double (digits_value b) 1)
      | c # fp \<Rightarrow>
          if c = 0x2E \<and> list_all is_digit fp \<and> (takeWhile is_digit b \<noteq> [] \<or> fp \<noteq> [])
          then Some (to_double (digits_value (takeWhile is_digit b @ fp)) (10 ^ length fp))
          else None)"

definition py_float :: "ustr \<Rightarrow> (bool \<times> frac option) option" where
  "py_float s =
     (if s \<noteq> [] \<and> hd s = 0x2D
      then map_option (Pair True) (float_body (tl s))
      else map_option (Pair False) (float_body s))"

text \<open>\<open>re.sub(r"\s+", "", text.strip().lower())\<close>.\<close>

definition squeeze :: "ustr \<Rightarrow> ustr" where
  "squeeze t = filter (\<lambda>c. \<not> is_space c) (map lower_cp (strip t))"

text \<open>\<open>s.endswith("k")\<close>, for the Cyrillic (U+043A) or the Latin letter.\<close>

definition has_k_suffix :: "ustr \<Rightarrow> bool" where
  "has_k_suffix s = (s \<noteq> [] \<and> (last s = 0x43A \<or> last s = 0x6B))"

text \<open>The branch on \<open>has_comma\<close> and \<open>has_dot\<close>.\<close>

definition fix_separators :: "ustr \<Rightarrow> ustr" where
  "fix_separators s =
     (if 0x2C \<in> set s \<and> 0x2E \<in> set s then
        filter (\<lambda>c. \<not> is_sep c) (take (max (rfind 0x2C s) (rfind 0x2E s)) s) @ [0x2E]
        @ filter (\<lambda>c. \<not> is_sep c) (drop (max (rfind 0x2C s) (rfind 0x2E s) + 1) s)
      else if 0x2C \<in> set s then map (\<lambda>c. if c = 0x2C then 0x2E else c) s
      else s)"

text \<open>\<open>re.sub(r"[^0-9.\-]", "", s)\<close>.\<close>

definition numeric_chars :: "ustr \<Rightarrow> ustr" where
  "numeric_chars s = filter (\<lambda>c. is_digit c \<or> c = 0x2E \<or> c = 0x2D) s"

text \<open>The \<open>try\<close> block: multiply, reject a negative value, round to two places.\<close>

definition finish_amount :: "nat \<Rightarrow> (bool \<times> frac option) option \<Rightarrow> pyfloat option" where
  "finish_amount mult r =
     (case r of
        None \<Rightarrow> None
      | Some (neg, x) \<Rightarrow>
          if float_lt0 (mk_float neg (float_mul x mult)) then None
          else Some (mk_float neg (round2 (float_mul x mult))))"

definition parse_amount :: "ustr \<Rightarrow> pyfloat option" where
  "parse_amount t =
     (if t = [] then None
      else if has_k_suffix (squeeze t)
      then finish_amount 1000 (py_float (numeric_chars (fix_separators (butlast (squeeze t)))))
      else finish_amount 1 (py_float (numeric_chars (fix_separators (squeeze t)))))"

section \<open>The backend gateway\<close>

text \<open>
  The payload sub-object of a successful answer (\<open>data["data"]\<close>), a dictionary. The
  dialogue reads three of its keys, the lists of expense categories, income categories
  and payment types; each may be absent. Everything else in a payload feeds the
  formatter only and is not modelled; an answer to a request other than
  \<open>get_categories\<close> has none of the three keys. The owner's main screen prints
  \<open>expenses\<close> and \<open>incomes\<close> of the month summary as numbers, so a summary that
  carries a list under either key cannot be formatted.
\<close>

record gas_data =
  expenses :: "ustr list option"
  incomes :: "ustr list option"
  payment_types :: "ustr list option"

definition no_data :: gas_data where
  "no_data = \<lparr>expenses = None, incomes = None, payment_types = None\<rparr>"

text \<open>
  What one HTTP exchange can end in: no answer in time, a broken connection, a body
  that cannot be read to its end or cannot be decoded as text (\<open>resp.text()\<close>, outside
  the \<open>try\<close>), or a body with its content type. \<open>resp.json()\<close> takes a body only when
  it is served as \<open>application/json\<close> (the flag of \<open>Body\<close>). A body is not JSON, or
  JSON that is not an object (an empty body is read as \<open>None\<close>), or an object, of which
  the gateway reads the keys \<open>ok\<close>, \<open>error\<close> and \<open>data\<close> (each may be absent).
\<close>

datatype body =
    NotJson
  | JsonNonObject
  | JsonObject "jval option" "jval option" "gas_data option"

datatype http =
    TimedOut
  | ConnectionFailed
  | BodyReadFailed
  | BodyNotText
  | Body bool body

text \<open>Values of a request payload, and the payload as a dictionary.\<close>

datatype pval = PStr ustr | PInt int | PFloat pyfloat | PNone

type_synonym payload = "string \<rightharpoonup> pval"

text \<open>
  The message of the source for a body that is not JSON (Russian, "GAS returned a
  non-JSON answer"), as code points: Cyrillic letters are U+0430 to U+044F.
\<close>

definition MSG_NON_JSON :: ustr where
  "MSG_NON_JSON = [0x47, 0x41, 0x53, 0x20, 0x432, 0x435, 0x440, 0x43D, 0x443, 0x43B, 0x20,
     0x43D, 0x435, 0x2D, 0x4A, 0x53, 0x4F, 0x4E, 0x20, 0x43E, 0x442, 0x432, 0x435, 0x442]"

text \<open>
  \<open>gas_request\<close>, split at the network: \<open>gas_body\<close> is the request as posted (the
  caller's payload with \<open>user_id\<close> stored into it), \<open>gas_result\<close> is what the function
  returns or raises for each outcome of the exchange.
\<close>

definition gas_body :: "payload \<Rightarrow> int \<Rightarrow> payload" where
  "gas_body p user_id = p(''user_id'' \<mapsto> PInt user_id)"

text \<open>\<open>not data.get("ok")\<close> and \<open>data.get("error") or "GAS error"\<close>.\<close>

definition ok_flag_false :: "jval option \<Rightarrow> bool" where
  "ok_flag_false ok = (\<not> (case ok of None \<Rightarrow> False | Some v \<Rightarrow> truthy v))"

definition error_or_default :: "jval option \<Rightarrow> jval" where
  "error_or_default err =
     (case err of
        None \<Rightarrow> JStr (ustr_of ''GAS error'')
      | Some v \<Rightarrow> if truthy v then v else JStr (ustr_of ''GAS error''))"

fun gas_result :: "http \<Rightarrow> exc + gas_data" where
  "gas_result TimedOut = Inl TimeoutError"
| "gas_result ConnectionFailed = Inl ClientError"
| "gas_result BodyReadFailed = Inl ClientError"
| "gas_result BodyNotText = Inl UnicodeDecodeError"
| "gas_result (Body json_type NotJson) = Inl (RuntimeError (JStr MSG_NON_JSON))"
| "gas_result (Body json_type JsonNonObject) =
     (if json_type then Inl AttributeError else Inl (RuntimeError (JStr MSG_NON_JSON)))"
| "gas_result (Body json_type (JsonObject ok err dat)) =
     (if \<not> json_type then Inl (RuntimeError (JStr MSG_NON_JSON))
      else if ok_flag_false ok then Inl (RuntimeError (error_or_default err))
      else (case dat of None \<Rightarrow> Inl (KeyError ''data'') | Some d \<Rightarrow> Inr d))"

section \<open>Configuration and access control\<close>

text \<open>The two identity lists read from the environment when the process starts.\<close>

record config =
  USER_TG_IDS :: "int list"
  OWNER_IDS :: "int list"

text \<open>\<open>update.effective_user\<close> may be absent.\<close>

definition is_allowed :: "config \<Rightarrow> int option \<Rightarrow> bool" where
  "is_allowed c user = (case user of None \<Rightarrow> False | Some uid \<Rightarrow> uid \<in> set (USER_TG_IDS c))"

definition is_owner :: "config \<Rightarrow> int \<Rightarrow> bool" where
  "is_owner c user_id = (user_id \<in> set (OWNER_IDS c))"

section \<open>Conversation states\<close>

text \<open>The fourteen names the module binds with \<open>range(14)\<close>, in order.\<close>

datatype state =
    ST_MENU
  | ST_ADD_CHOOSE_TYPE
  | ST_EXP_CATEGORY
  | ST_EXP_PAYMENT_TYPE
  | ST_AMOUNT
  | ST_COMMENT
  | ST_INC_CATEGORY
  | ST_ANALYSIS_PERIOD
  | ST_ANALYSIS_TYPE
  | ST_SPECIAL_REPORTS
  | ST_BALANCE_CHOOSE_TYPE
  | ST_BALANCE_EDIT
  | ST_DEBTS_CHOOSE_TYPE
  | ST_DEBTS_EDIT

text \<open>
  The state names bound at module level. A handler or the handler table that mentions
  any other name raises \<open>NameError\<close> when the name is evaluated.
\<close>

definition module_globals :: "(string \<times> state) list" where
  "module_globals =
     [(''ST_MENU'', ST_MENU), (''ST_ADD_CHOOSE_TYPE'', ST_ADD_CHOOSE_TYPE),
      (''ST_EXP_CATEGORY'', ST_EXP_CATEGORY), (''ST_EXP_PAYMENT_TYPE'', ST_EXP_PAYMENT_TYPE),
      (''ST_AMOUNT'', ST_AMOUNT), (''ST_COMMENT'', ST_COMMENT),
      (''ST_INC_CATEGORY'', ST_INC_CATEGORY), (''ST_ANALYSIS_PERIOD'', ST_ANALYSIS_PERIOD),
      (''ST_ANALYSIS_TYPE'', ST_ANALYSIS_TYPE), (''ST_SPECIAL_REPORTS'', ST_SPECIAL_REPORTS),
      (''ST_BALANCE_CHOOSE_TYPE'', ST_BALANCE_CHOOSE_TYPE), (''ST_BALANCE_EDIT'', ST_BALANCE_EDIT),
      (''ST_DEBTS_CHOOSE_TYPE'', ST_DEBTS_CHOOSE_TYPE), (''ST_DEBTS_EDIT'', ST_DEBTS_EDIT)]"

definition load_name :: "string \<Rightarrow> exc + state" where
  "load_name n = (case map_of module_globals n of None \<Rightarrow> Inl (NameError n) | Some st \<Rightarrow> Inr st)"

text \<open>
  What a handler returns to the conversation handler: a state, \<open>ConversationHandler.END\<close>,
  or nothing (the state is kept).
\<close>

datatype ret = Goto state | END | Stay

section \<open>Session data\<close>

text \<open>
  The draft record \<open>user_data["tx"]\<close>, a dictionary with up to five keys. The type of a
  record is one of the two Russian words below.
\<close>

record tx =
  tx_type :: "ustr option"
  tx_category :: "ustr option"
  tx_amount :: "pyfloat option"
  tx_payment_type :: "ustr option"
  tx_comment :: "ustr option"

definition empty_tx :: tx where
  "empty_tx = \<lparr>tx_type = None, tx_category = None, tx_amount = None,
               tx_payment_type = None, tx_comment = None\<rparr>"

text \<open>"raskhod" (expense) and "dokhod" (income), as code points.\<close>

definition EXPENSE :: ustr where
  "EXPENSE = [0x440, 0x430, 0x441, 0x445, 0x43E, 0x434]"

definition INCOME :: ustr where
  "INCOME = [0x434, 0x43E, 0x445, 0x43E, 0x434]"

text \<open>The income category "Uslugi po BN" (services by bank transfer), as code points.\<close>

definition CAT_BN :: ustr where
  "CAT_BN = [0x423, 0x441, 0x43B, 0x443, 0x433, 0x438, 0x20, 0x43F, 0x43E, 0x20, 0x411, 0x41D]"

text \<open>
  \<open>context.user_data\<close>: one dictionary per user. \<open>None\<close> is an absent key; for
  \<open>working_message_id\<close> it also stands for a stored \<open>None\<close>, which no reader tells apart.
\<close>

record user_data =
  working_message_id :: "nat option"
  ud_tx :: "tx option"
  ud_categories :: "gas_data option"
  analysis_period :: "string option"
  balance_payment_type :: "string option"
  debt_type :: "string option"

definition empty_user_data :: user_data where
  "empty_user_data = \<lparr>working_message_id = None, ud_tx = None, ud_categories = None,
     analysis_period = None, balance_payment_type = None, debt_type = None\<rparr>"

text \<open>\<open>context.user_data.get("tx", {})\<close>.\<close>

definition get_tx :: "user_data \<Rightarrow> tx" where
  "get_tx ud = (case ud_tx ud of None \<Rightarrow> empty_tx | Some t \<Rightarrow> t)"

text \<open>\<open>context.user_data.get("categories", {}).get(key, [])\<close> for the three keys.\<close>

definition cached_expenses :: "user_data \<Rightarrow> ustr list" where
  "cached_expenses ud =
     (case ud_categories ud of None \<Rightarrow> []
      | Some c \<Rightarrow> (case expenses c of None \<Rightarrow> [] | Some xs \<Rightarrow> xs))"

definition cached_incomes :: "user_data \<Rightarrow> ustr list" where
  "cached_incomes ud =
     (case ud_categories ud of None \<Rightarrow> []
      | Some c \<Rightarrow> (case incomes c of None \<Rightarrow> [] | Some xs \<Rightarrow> xs))"

definition cached_payment_types :: "user_data \<Rightarrow> ustr list" where
  "cached_payment_types ud =
     (case ud_categories ud of None \<Rightarrow> []
      | Some c \<Rightarrow> (case payment_types c of None \<Rightarrow> [] | Some xs \<Rightarrow> xs))"

section \<open>Events, outbound operations and the world\<close>

text \<open>
  An inbound update of one user in a private chat: a command message (\<open>/name\<close>), a
  button press (its payload and the id of the message that carries the keyboard), or a
  text message that is not a command.
\<close>

datatype event = Command string | Callback string nat | TextMessage ustr

text \<open>
  The texts the bot sends. The wording (Russian, with figures formatted from backend
  data) is presentation; a text is identified by the place of the source that builds
  it, with the values it is built from where the dialogue decides them.
\<close>

datatype msg_text =
    DENY_TEXT
  | ACCESS_DENIED
  | MAIN_SCREEN_OWNER
  | MAIN_SCREEN_EMPLOYEE
  | ASK_WHAT_TO_ADD
  | ASK_ANALYSIS_PERIOD
  | SHOW_BALANCES
  | ASK_WHICH_DEBTS
  | ASK_EXPENSE_CATEGORY
  | ASK_INCOME_CATEGORY
  | ASK_AMOUNT
  | AMOUNT_NOT_UNDERSTOOD
  | ASK_PAYMENT_TYPE
  | ASK_LEGAL_ENTITY
  | ASK_CLIENT_OR_CAR
  | ASK_COMMENT
  | LEGAL_ENTITY_REQUIRED
  | CLIENT_OR_CAR_REQUIRED
  | ERROR_TEXT exc
  | SAVED tx
  | ASK_ANALYSIS_TYPE string
  | SPECIAL_REPORTS_TITLE
  | REPORT
  | ASK_BALANCE string
  | BALANCE_NOT_UNDERSTOOD
  | BALANCE_SET string pyfloat
  | SHOW_DEBTS string
  | ASK_DEBTS string
  | DEBTS_NOT_UNDERSTOOD
  | DEBTS_SET string pyfloat
  | HELP_TEXT
  | SOMETHING_WENT_WRONG

text \<open>The inline keyboards, named as the functions that build them.\<close>

datatype keyboard =
    kb_main_owner
  | kb_main_employee
  | kb_choose_type
  | kb_expense_categories "ustr list"
  | kb_income_categories "ustr list"
  | kb_payment_types "ustr list"
  | kb_skip_comment
  | kb_analysis_periods
  | kb_analysis_type
  | kb_special_reports
  | kb_balance_menu
  | kb_debts_type
  | kb_debts_actions

text \<open>
  What the program does to the outside, in order: operations on the messaging
  transport and requests posted to the backend.
\<close>

datatype action =
    Answer
  | AnswerAlert msg_text
  | EditQueryMessage msg_text "keyboard option"
  | EditMessage nat msg_text "keyboard option"
  | ReplyText msg_text "keyboard option"
  | SendMessage msg_text "keyboard option"
  | DeleteMessage nat
  | DeleteUserMessage
  | GasRequest payload

text \<open>
  The world a handler runs in: the user's \<open>user_data\<close>, the number of backend requests
  posted so far, the id the transport gives the next message the bot sends, and the
  trace of actions. The backend is an oracle \<open>env\<close>: the outcome of the n-th request,
  given the body posted. Transport operations are taken to succeed.
\<close>

record world =
  session :: user_data
  requests :: nat
  next_message_id :: nat
  trace :: "action list"

type_synonym 'a io = "world \<Rightarrow> (exc + 'a) \<times> world"

definition io_return :: "'a \<Rightarrow> 'a io" where
  "io_return x w = (Inr x, w)"

definition io_raise :: "exc \<Rightarrow> 'a io" where
  "io_raise e w = (Inl e, w)"

definition io_bind :: "'a io \<Rightarrow> ('a \<Rightarrow> 'b io) \<Rightarrow> 'b io" where
  "io_bind m f w = (case m w of (Inl e, w') \<Rightarrow> (Inl e, w') | (Inr x, w') \<Rightarrow> f x w')"

definition emit :: "action \<Rightarrow> world \<Rightarrow> world" where
  "emit a w = w\<lparr>trace := trace w @ [a]\<rparr>"

text \<open>\<open>send_message\<close> returns the message sent; the program reads its id.\<close>

definition send_message :: "msg_text \<Rightarrow> keyboard option \<Rightarrow> world \<Rightarrow> nat \<times> world" where
  "send_message t kb w =
     (next_message_id w,
      w\<lparr>next_message_id := Suc (next_message_id w), trace := trace w @ [SendMessage t kb]\<rparr>)"

definition set_working_message_id :: "nat option \<Rightarrow> world \<Rightarrow> world" where
  "set_working_message_id m w = w\<lparr>session := (session w)\<lparr>working_message_id := m\<rparr>\<rparr>"

definition set_tx :: "tx \<Rightarrow> world \<Rightarrow> world" where
  "set_tx t w = w\<lparr>session := (session w)\<lparr>ud_tx := Some t\<rparr>\<rparr>"

definition delete_working_message :: "world \<Rightarrow> world" where
  "delete_working_message w =
     set_working_message_id None
       (case working_message_id (session w) of
          None \<Rightarrow> w
        | Some m \<Rightarrow> if m \<noteq> 0 then emit (DeleteMessage m) w else w)"

definition gas_request :: "(nat \<Rightarrow> payload \<Rightarrow> http) \<Rightarrow> payload \<Rightarrow> int \<Rightarrow> gas_data io" where
  "gas_request env p user_id w =
     (gas_result (env (requests w) (gas_body p user_id)),
      w\<lparr>requests := Suc (requests w), trace := trace w @ [GasRequest (gas_body p user_id)]\<rparr>)"

definition cmd_payload :: "string \<Rightarrow> payload" where
  "cmd_payload c = [''cmd'' \<mapsto> PStr (ustr_of c)]"

definition main_screen_text_owner :: "(nat \<Rightarrow> payload \<Rightarrow> http) \<Rightarrow> int \<Rightarrow> msg_text io" where
  "main_screen_text_owner env user_id =
     io_bind (gas_request env (cmd_payload ''summary_month'') user_id) (\<lambda>s.
     io_bind (gas_request env ((cmd_payload ''get_last_transactions'')(''limit'' \<mapsto> PInt 5)) user_id) (\<lambda>txs.
     if expenses s \<noteq> None \<or> incomes s \<noteq> None then io_raise TypeError
     else io_return MAIN_SCREEN_OWNER))"

definition main_screen_text_employee :: "(nat \<Rightarrow> payload \<Rightarrow> http) \<Rightarrow> int \<Rightarrow> msg_text io" where
  "main_screen_text_employee env user_id =
     io_bind (gas_request env ((cmd_payload ''get_last_transactions'')(''limit'' \<mapsto> PInt 10)) user_id) (\<lambda>txs.
     io_return MAIN_SCREEN_EMPLOYEE)"

definition get_categories :: "(nat \<Rightarrow> payload \<Rightarrow> http) \<Rightarrow> int \<Rightarrow> gas_data io" where
  "get_categories env user_id = gas_request env (cmd_payload ''get_categories'') user_id"

text \<open>
  The block that several handlers repeat: the main screen text and keyboard of the
  user's role.
\<close>

definition main_screen :: "config \<Rightarrow> (nat \<Rightarrow> payload \<Rightarrow> http) \<Rightarrow> int \<Rightarrow> (msg_text \<times> keyboard) io" where
  "main_screen c env user_id =
     (if is_owner c user_id
      then io_bind (main_screen_text_owner env user_id) (\<lambda>txt. io_return (txt, kb_main_owner))
      else io_bind (main_screen_text_employee env user_id) (\<lambda>txt. io_return (txt, kb_main_employee)))"

text \<open>Effects that cannot fail, run in the order of the list.\<close>

definition seq :: "(world \<Rightarrow> world) list \<Rightarrow> world \<Rightarrow> world" where
  "seq fs w = fold (\<lambda>f x. f x) fs w"

definition send :: "msg_text \<Rightarrow> keyboard option \<Rightarrow> world \<Rightarrow> world" where
  "send t kb w = snd (send_message t kb w)"

text \<open>Send a prompt and remember it as the working message.\<close>

definition send_working :: "msg_text \<Rightarrow> world \<Rightarrow> world" where
  "send_working t w =
     set_working_message_id (Some (fst (send_message t None w))) (snd (send_message t None w))"

section \<open>Handlers\<close>

subsection \<open>Reading callback payloads\<close>

text \<open>
  \<open>q.data.split(":")[1]\<close>, for a payload with a colon in it (every pattern of the
  handler table begins with a word and a colon).
\<close>

definition field1 :: "string \<Rightarrow> string" where
  "field1 d = takeWhile (\<lambda>c. c \<noteq> CHR '':'') (drop 1 (dropWhile (\<lambda>c. c \<noteq> CHR '':'') d))"

definition is_digit_char :: "char \<Rightarrow> bool" where
  "is_digit_char c = (48 \<le> (of_char c :: nat) \<and> (of_char c :: nat) \<le> 57)"

text \<open>
  \<open>int(field)\<close> for a field that a pattern ending in \<open>\d+$\<close> has matched: decimal
  digits, and possibly the line feed that \<open>$\<close> lets through and \<open>int\<close> strips.
\<close>

definition py_int :: "string \<Rightarrow> nat" where
  "py_int f = foldl (\<lambda>n c. 10 * n + (of_char c - 48)) (0::nat) (takeWhile is_digit_char f)"

text \<open>\<open>xs[i]\<close> for an index that is not negative.\<close>

definition index :: "'a list \<Rightarrow> nat \<Rightarrow> exc + 'a" where
  "index xs i = (if i < length xs then Inr (xs ! i) else Inl IndexError)"

subsection \<open>Start and menu\<close>

definition cmd_start :: "config \<Rightarrow> (nat \<Rightarrow> payload \<Rightarrow> http) \<Rightarrow> int \<Rightarrow> ret io" where
  "cmd_start c env uid w =
     (if \<not> is_allowed c (Some uid) then (Inr END, emit (ReplyText DENY_TEXT None) w)
      else io_bind (main_screen c env uid)
             (\<lambda>(txt, kb) w'. (Inr (Goto ST_MENU), emit (ReplyText txt (Some kb)) w'))
             (w\<lparr>session := empty_user_data\<rparr>))"

definition on_menu :: "config \<Rightarrow> (nat \<Rightarrow> payload \<Rightarrow> http) \<Rightarrow> int \<Rightarrow> string \<Rightarrow> nat \<Rightarrow> ret io" where
  "on_menu c env uid d mid w =
     (if \<not> is_allowed c (Some uid)
      then (Inr END, seq [emit Answer, emit (EditQueryMessage DENY_TEXT None)] w)
      else if d = ''menu:add''
      then (Inr (Goto ST_ADD_CHOOSE_TYPE),
            seq [emit Answer, emit (EditQueryMessage ASK_WHAT_TO_ADD (Some kb_choose_type)),
                 set_working_message_id (Some mid)] w)
      else if d = ''menu:analysis''
      then (if \<not> is_owner c uid
            then (Inr (Goto ST_MENU), seq [emit Answer, emit (AnswerAlert ACCESS_DENIED)] w)
            else (Inr (Goto ST_ANALYSIS_PERIOD),
                  seq [emit Answer,
                       emit (EditQueryMessage ASK_ANALYSIS_PERIOD (Some kb_analysis_periods)),
                       set_working_message_id (Some mid)] w))
      else if d = ''menu:balance''
      then (if \<not> is_owner c uid
            then (Inr (Goto ST_MENU), seq [emit Answer, emit (AnswerAlert ACCESS_DENIED)] w)
            else io_bind (gas_request env (cmd_payload ''get_all_balances'') uid)
                   (\<lambda>balances w'.
                      (Inr (Goto ST_MENU),
                       seq [emit (EditQueryMessage SHOW_BALANCES (Some kb_balance_menu)),
                            set_working_message_id (Some mid)] w'))
                   (emit Answer w))
      else if d = ''menu:debts''
      then (if \<not> is_owner c uid
            then (Inr (Goto ST_MENU), seq [emit Answer, emit (AnswerAlert ACCESS_DENIED)] w)
            else (Inr (Goto ST_DEBTS_CHOOSE_TYPE),
                  seq [emit Answer, emit (EditQueryMessage ASK_WHICH_DEBTS (Some kb_debts_type)),
                       set_working_message_id (Some mid)] w))
      else (Inr (Goto ST_MENU), emit Answer w))"

text \<open>\<open>categories["expenses"]\<close> and \<open>categories["incomes"]\<close> on a fetched payload.\<close>

definition expenses_of :: "gas_data \<Rightarrow> exc + ustr list" where
  "expenses_of cats = (case expenses cats of None \<Rightarrow> Inl (KeyError ''expenses'') | Some xs \<Rightarrow> Inr xs)"

definition incomes_of :: "gas_data \<Rightarrow> exc + ustr list" where
  "incomes_of cats = (case incomes cats of None \<Rightarrow> Inl (KeyError ''incomes'') | Some xs \<Rightarrow> Inr xs)"

definition back_router :: "config \<Rightarrow> (nat \<Rightarrow> payload \<Rightarrow> http) \<Rightarrow> int \<Rightarrow> string \<Rightarrow> ret io" where
  "back_router c env uid d w =
     (if d = ''back:menu''
      then io_bind (main_screen c env uid)
             (\<lambda>(txt, kb) w'. (Inr (Goto ST_MENU), send txt (Some kb) w'))
             (seq [emit Answer, delete_working_message] w)
      else if d = ''back:choose_type''
      then (Inr (Goto ST_ADD_CHOOSE_TYPE),
            seq [emit Answer, emit (EditQueryMessage ASK_WHAT_TO_ADD (Some kb_choose_type))] w)
      else if d = ''back:exp_cat''
      then io_bind (get_categories env uid)
             (\<lambda>cats w'.
                case expenses_of cats of
                  Inl e \<Rightarrow> (Inl e, w')
                | Inr xs \<Rightarrow>
                    (Inr (Goto ST_EXP_CATEGORY),
                     emit (EditQueryMessage ASK_EXPENSE_CATEGORY (Some (kb_expense_categories xs))) w'))
             (emit Answer w)
      else if d = ''back:analysis_periods''
      then (Inr (Goto ST_ANALYSIS_PERIOD),
            seq [emit Answer,
                 emit (EditQueryMessage ASK_ANALYSIS_PERIOD (Some kb_analysis_periods))] w)
      else if d = ''back:analysis_type''
      then (Inr (Goto ST_ANALYSIS_TYPE),
            seq [emit Answer,
                 emit (EditQueryMessage
                         (ASK_ANALYSIS_TYPE
                            (case analysis_period (session w) of None \<Rightarrow> ''month'' | Some p \<Rightarrow> p))
                         (Some kb_analysis_type))] w)
      else if d = ''back:debts_type''
      then (Inr (Goto ST_DEBTS_CHOOSE_TYPE),
            seq [emit Answer, emit (EditQueryMessage ASK_WHICH_DEBTS (Some kb_debts_type))] w)
      else (Inr (Goto ST_MENU), emit Answer w))"

subsection \<open>Entering a transaction\<close>

definition set_categories :: "gas_data \<Rightarrow> world \<Rightarrow> world" where
  "set_categories cats w = w\<lparr>session := (session w)\<lparr>ud_categories := Some cats\<rparr>\<rparr>"

text \<open>\<open>tx = user_data.get("tx", {})\<close>, a change of its keys, \<open>user_data["tx"] = tx\<close>.\<close>

definition update_tx :: "(tx \<Rightarrow> tx) \<Rightarrow> world \<Rightarrow> world" where
  "update_tx f w = set_tx (f (get_tx (session w))) w"

text \<open>\<open>if work_msg_id:\<close> edit that message.\<close>

definition edit_working :: "msg_text \<Rightarrow> keyboard option \<Rightarrow> world \<Rightarrow> world" where
  "edit_working t kb w =
     (case working_message_id (session w) of
        None \<Rightarrow> w
      | Some m \<Rightarrow> if m \<noteq> 0 then emit (EditMessage m t kb) w else w)"

definition choose_type :: "(nat \<Rightarrow> payload \<Rightarrow> http) \<Rightarrow> int \<Rightarrow> string \<Rightarrow> ret io" where
  "choose_type env uid d w =
     io_bind (get_categories env uid)
       (\<lambda>cats w'.
          if d = ''type:expense''
          then (case expenses_of cats of
                  Inl e \<Rightarrow> (Inl e, set_categories cats w')
                | Inr xs \<Rightarrow>
                    (Inr (Goto ST_EXP_CATEGORY),
                     seq [set_categories cats,
                          emit (EditQueryMessage ASK_EXPENSE_CATEGORY
                                  (Some (kb_expense_categories xs)))] w'))
          else if d = ''type:income''
          then (case incomes_of cats of
                  Inl e \<Rightarrow> (Inl e, set_categories cats w')
                | Inr xs \<Rightarrow>
                    (Inr (Goto ST_INC_CATEGORY),
                     seq [set_categories cats,
                          emit (EditQueryMessage ASK_INCOME_CATEGORY
                                  (Some (kb_income_categories xs)))] w'))
          else (Inr (Goto ST_ADD_CHOOSE_TYPE), w'))
       (seq [emit Answer, set_tx empty_tx] w)"

definition expense_category :: "string \<Rightarrow> ret io" where
  "expense_category d w =
     (case index (cached_expenses (session w)) (py_int (field1 d)) of
        Inl e \<Rightarrow> (Inl e, emit Answer w)
      | Inr cat \<Rightarrow>
          (Inr (Goto ST_AMOUNT),
           seq [emit Answer,
                update_tx (\<lambda>t. t\<lparr>tx_type := Some EXPENSE, tx_category := Some cat\<rparr>),
                emit (EditQueryMessage ASK_AMOUNT None)] w))"

definition income_category :: "string \<Rightarrow> ret io" where
  "income_category d w =
     (case index (cached_incomes (session w)) (py_int (field1 d)) of
        Inl e \<Rightarrow> (Inl e, emit Answer w)
      | Inr cat \<Rightarrow>
          (Inr (Goto ST_AMOUNT),
           seq [emit Answer,
                update_tx (\<lambda>t. t\<lparr>tx_type := Some INCOME, tx_category := Some cat,
                                  tx_payment_type := Some cat\<rparr>),
                emit (EditQueryMessage ASK_AMOUNT None)] w))"

text \<open>
  The expense branch ends in \<open>return ST_PAYMENT_TYPE\<close>. The module binds no such name
  (the state list has \<open>ST_EXP_PAYMENT_TYPE\<close>), so the return statement is the lookup
  of the name.
\<close>

definition amount_received :: "config \<Rightarrow> int \<Rightarrow> ustr \<Rightarrow> ret io" where
  "amount_received c uid t w =
     (if \<not> is_allowed c (Some uid) then (Inr END, emit (ReplyText DENY_TEXT None) w)
      else
        case parse_amount t of
          None \<Rightarrow>
            (Inr (Goto ST_AMOUNT),
             seq [emit DeleteUserMessage, delete_working_message,
                  send_working AMOUNT_NOT_UNDERSTOOD] w)
        | Some amt \<Rightarrow>
            if tx_type (get_tx (session w)) = Some EXPENSE
            then (case load_name ''ST_PAYMENT_TYPE'' of Inl e \<Rightarrow> Inl e | Inr st \<Rightarrow> Inr (Goto st),
                  seq [emit DeleteUserMessage, update_tx (\<lambda>t. t\<lparr>tx_amount := Some amt\<rparr>),
                       edit_working ASK_PAYMENT_TYPE
                         (Some (kb_payment_types (cached_payment_types (session w))))] w)
            else (Inr (Goto ST_COMMENT),
                  seq [emit DeleteUserMessage, update_tx (\<lambda>t. t\<lparr>tx_amount := Some amt\<rparr>),
                       edit_working
                         (if tx_category (get_tx (session w)) = Some CAT_BN
                          then ASK_LEGAL_ENTITY else ASK_CLIENT_OR_CAR) None] w))"

definition payment_type_selected :: "string \<Rightarrow> ret io" where
  "payment_type_selected d w =
     (case index (cached_payment_types (session w)) (py_int (field1 d)) of
        Inl e \<Rightarrow> (Inl e, emit Answer w)
      | Inr pt \<Rightarrow>
          (Inr (Goto ST_COMMENT),
           seq [emit Answer, update_tx (\<lambda>t. t\<lparr>tx_payment_type := Some pt\<rparr>),
                emit (EditQueryMessage ASK_COMMENT (Some kb_skip_comment))] w))"

subsection \<open>Finalize\<close>

definition opt_str :: "ustr option \<Rightarrow> pval" where
  "opt_str x = (case x of None \<Rightarrow> PNone | Some v \<Rightarrow> PStr v)"

text \<open>The payload of the \<open>add\<close> request, built from the draft with \<open>tx.get\<close>.\<close>

definition add_payload :: "tx \<Rightarrow> payload" where
  "add_payload t =
     [''cmd'' \<mapsto> PStr (ustr_of ''add''),
      ''type'' \<mapsto> opt_str (tx_type t),
      ''category'' \<mapsto> opt_str (tx_category t),
      ''amount'' \<mapsto> (case tx_amount t of None \<Rightarrow> PNone | Some a \<Rightarrow> PFloat a),
      ''payment_type'' \<mapsto> opt_str (tx_payment_type t),
      ''comment'' \<mapsto> PStr (case tx_comment t of None \<Rightarrow> [] | Some cm \<Rightarrow> cm)]"

text \<open>The main screen of the user's role, sent as a new message.\<close>

definition show_main_screen :: "config \<Rightarrow> (nat \<Rightarrow> payload \<Rightarrow> http) \<Rightarrow> int \<Rightarrow> unit io" where
  "show_main_screen c env uid =
     io_bind (main_screen c env uid) (\<lambda>(txt, kb) w. (Inr (), send txt (Some kb) w))"

text \<open>
  \<open>save_and_finish_\<close> of the source (a name cannot end in an underscore here). A failed \<open>add\<close> request is caught: the error is sent and the main
  screen follows. The acknowledgment formats the amount with \<open>:,.2f\<close>, a \<open>TypeError\<close>
  when the draft has none. The draft itself is read, never written.
\<close>

definition save_and_finish :: "config \<Rightarrow> (nat \<Rightarrow> payload \<Rightarrow> http) \<Rightarrow> int \<Rightarrow> unit io" where
  "save_and_finish c env uid w =
     (case gas_request env (add_payload (get_tx (session w))) uid (delete_working_message w) of
        (Inl e, w') \<Rightarrow> show_main_screen c env uid (send (ERROR_TEXT e) None w')
      | (Inr r, w') \<Rightarrow>
          (case tx_amount (get_tx (session w)) of
             None \<Rightarrow> (Inl TypeError, w')
           | Some a \<Rightarrow> show_main_screen c env uid (send (SAVED (get_tx (session w))) None w')))"

definition comment_skip :: "config \<Rightarrow> (nat \<Rightarrow> payload \<Rightarrow> http) \<Rightarrow> int \<Rightarrow> ret io" where
  "comment_skip c env uid w =
     io_bind (save_and_finish c env uid) (\<lambda>u. io_return (Goto ST_MENU))
       (seq [emit Answer, update_tx (\<lambda>t. t\<lparr>tx_comment := Some []\<rparr>)] w)"

definition comment_received :: "config \<Rightarrow> (nat \<Rightarrow> payload \<Rightarrow> http) \<Rightarrow> int \<Rightarrow> ustr \<Rightarrow> ret io" where
  "comment_received c env uid t w =
     (if \<not> is_allowed c (Some uid) then (Inr END, emit (ReplyText DENY_TEXT None) w)
      else if tx_type (get_tx (session w)) = Some INCOME \<and> strip t = []
      then (Inr (Goto ST_COMMENT),
            seq [emit DeleteUserMessage, delete_working_message,
                 send_working (if tx_category (get_tx (session w)) = Some CAT_BN
                               then LEGAL_ENTITY_REQUIRED else CLIENT_OR_CAR_REQUIRED)] w)
      else io_bind (save_and_finish c env uid) (\<lambda>u. io_return (Goto ST_MENU))
             (seq [emit DeleteUserMessage, update_tx (\<lambda>x. x\<lparr>tx_comment := Some (strip t)\<rparr>)] w))"

subsection \<open>Analysis\<close>

definition set_analysis_period :: "string \<Rightarrow> world \<Rightarrow> world" where
  "set_analysis_period x w = w\<lparr>session := (session w)\<lparr>analysis_period := Some x\<rparr>\<rparr>"

definition analysis_period_handler :: "string \<Rightarrow> ret io" where
  "analysis_period_handler d w =
     (if d = ''aperiod:special''
      then (Inr (Goto ST_SPECIAL_REPORTS),
            seq [emit Answer,
                 emit (EditQueryMessage SPECIAL_REPORTS_TITLE (Some kb_special_reports))] w)
      else (Inr (Goto ST_ANALYSIS_TYPE),
            seq [emit Answer, set_analysis_period (field1 d),
                 emit (EditQueryMessage (ASK_ANALYSIS_TYPE (field1 d)) (Some kb_analysis_type))] w))"

definition analysis_type :: "config \<Rightarrow> (nat \<Rightarrow> payload \<Rightarrow> http) \<Rightarrow> int \<Rightarrow> string \<Rightarrow> ret io" where
  "analysis_type c env uid d w =
     io_bind
       (gas_request env
          ((cmd_payload (if field1 d = ''income'' then ''analysis_income'' else ''analysis_expense''))
             (''period'' \<mapsto>
                PStr (ustr_of (case analysis_period (session w) of None \<Rightarrow> ''month'' | Some p \<Rightarrow> p))))
          uid)
       (\<lambda>res w'.
          io_bind (show_main_screen c env uid) (\<lambda>u. io_return (Goto ST_MENU)) (send REPORT None w'))
       (seq [emit Answer, delete_working_message] w)"

text \<open>
  A payload that begins with \<open>special:\<close> but names none of the three reports leaves
  the local variable \<open>text\<close> unassigned when it is sent.
\<close>

definition special_reports :: "config \<Rightarrow> (nat \<Rightarrow> payload \<Rightarrow> http) \<Rightarrow> int \<Rightarrow> string \<Rightarrow> ret io" where
  "special_reports c env uid d w =
     (if d = ''special:compare'' \<or> d = ''special:average'' \<or> d = ''special:top''
      then io_bind
             (gas_request env
                (cmd_payload (if d = ''special:compare'' then ''compare_months''
                              else if d = ''special:average'' then ''average_check''
                              else ''top_expenses''))
                uid)
             (\<lambda>res w'.
                io_bind (show_main_screen c env uid) (\<lambda>u. io_return (Goto ST_MENU))
                  (send REPORT None w'))
             (seq [emit Answer, delete_working_message] w)
      else (Inl (UnboundLocalError ''text''), seq [emit Answer, delete_working_message] w))"

subsection \<open>Balance and debts\<close>

definition set_balance_payment_type :: "string \<Rightarrow> world \<Rightarrow> world" where
  "set_balance_payment_type x w = w\<lparr>session := (session w)\<lparr>balance_payment_type := Some x\<rparr>\<rparr>"

definition set_debt_type :: "string \<Rightarrow> world \<Rightarrow> world" where
  "set_debt_type x w = w\<lparr>session := (session w)\<lparr>debt_type := Some x\<rparr>\<rparr>"

definition balance_edit_start :: "string \<Rightarrow> nat \<Rightarrow> ret io" where
  "balance_edit_start d mid w =
     (Inr (Goto ST_BALANCE_EDIT),
      seq [emit Answer, set_balance_payment_type (field1 d),
           emit (EditQueryMessage (ASK_BALANCE (field1 d)) None),
           set_working_message_id (Some mid)] w)"

definition balance_edit_received :: "config \<Rightarrow> (nat \<Rightarrow> payload \<Rightarrow> http) \<Rightarrow> int \<Rightarrow> ustr \<Rightarrow> ret io" where
  "balance_edit_received c env uid t w =
     (if \<not> is_allowed c (Some uid) then (Inr END, emit (ReplyText DENY_TEXT None) w)
      else
        case (case parse_amount t of None \<Rightarrow> None | Some a \<Rightarrow> if float_lt0 a then None else Some a) of
          None \<Rightarrow>
            (Inr (Goto ST_BALANCE_EDIT),
             seq [emit DeleteUserMessage, delete_working_message,
                  send_working BALANCE_NOT_UNDERSTOOD] w)
        | Some amt \<Rightarrow>
            io_bind
              (gas_request env
                 ((cmd_payload ''set_balance'')
                    (''amount'' \<mapsto> PFloat amt,
                     ''payment_type'' \<mapsto>
                        PStr (ustr_of (case balance_payment_type (session w) of
                                         None \<Rightarrow> ''cash'' | Some x \<Rightarrow> x))))
                 uid)
              (\<lambda>res w'.
                 io_bind (main_screen_text_owner env uid)
                   (\<lambda>txt w''. (Inr (Goto ST_MENU), send txt (Some kb_main_owner) w''))
                   (seq [delete_working_message,
                         send (BALANCE_SET (case balance_payment_type (session w) of
                                              None \<Rightarrow> ''cash'' | Some x \<Rightarrow> x) amt) None] w'))
              (emit DeleteUserMessage w))"

definition debts_choose_type :: "(nat \<Rightarrow> payload \<Rightarrow> http) \<Rightarrow> int \<Rightarrow> string \<Rightarrow> ret io" where
  "debts_choose_type env uid d w =
     io_bind
       (gas_request env ((cmd_payload ''get_debts'')(''debt_type'' \<mapsto> PStr (ustr_of (field1 d)))) uid)
       (\<lambda>debts w'.
          (Inr (Goto ST_DEBTS_CHOOSE_TYPE),
           emit (EditQueryMessage (SHOW_DEBTS (field1 d)) (Some kb_debts_actions)) w'))
       (seq [emit Answer, set_debt_type (field1 d)] w)"

definition debts_edit_start :: "nat \<Rightarrow> ret io" where
  "debts_edit_start mid w =
     (Inr (Goto ST_DEBTS_EDIT),
      seq [emit Answer,
           emit (EditQueryMessage
                   (ASK_DEBTS (case debt_type (session w) of None \<Rightarrow> ''i_owe'' | Some x \<Rightarrow> x)) None),
           set_working_message_id (Some mid)] w)"

definition debts_edit_received :: "config \<Rightarrow> (nat \<Rightarrow> payload \<Rightarrow> http) \<Rightarrow> int \<Rightarrow> ustr \<Rightarrow> ret io" where
  "debts_edit_received c env uid t w =
     (if \<not> is_allowed c (Some uid) then (Inr END, emit (ReplyText DENY_TEXT None) w)
      else
        case (case parse_amount t of None \<Rightarrow> None | Some a \<Rightarrow> if float_lt0 a then None else Some a) of
          None \<Rightarrow>
            (Inr (Goto ST_DEBTS_EDIT),
             seq [emit DeleteUserMessage, delete_working_message,
                  send_working DEBTS_NOT_UNDERSTOOD] w)
        | Some amt \<Rightarrow>
            io_bind
              (gas_request env
                 ((cmd_payload ''set_debts'')
                    (''amount'' \<mapsto> PFloat amt,
                     ''debt_type'' \<mapsto>
                        PStr (ustr_of (case debt_type (session w) of
                                         None \<Rightarrow> ''i_owe'' | Some x \<Rightarrow> x))))
                 uid)
              (\<lambda>res w'.
                 io_bind (main_screen_text_owner env uid)
                   (\<lambda>txt w''. (Inr (Goto ST_MENU), send txt (Some kb_main_owner) w''))
                   (seq [delete_working_message,
                         send (DEBTS_SET (case debt_type (session w) of
                                            None \<Rightarrow> ''i_owe'' | Some x \<Rightarrow> x) amt) None] w'))
              (emit DeleteUserMessage w))"

subsection \<open>Help and errors\<close>

definition cmd_help :: "config \<Rightarrow> int option \<Rightarrow> ret io" where
  "cmd_help c user w =
     (if \<not> is_allowed c user then (Inr Stay, emit (ReplyText DENY_TEXT None) w)
      else (Inr Stay, emit (ReplyText HELP_TEXT None) w))"

definition error_handler :: "world \<Rightarrow> world" where
  "error_handler w = emit (ReplyText SOMETHING_WENT_WRONG None) w"

section \<open>The handler table and the conversation\<close>

text \<open>The handler functions, by name.\<close>

datatype handler =
    H_cmd_start
  | H_on_menu
  | H_balance_edit_start
  | H_choose_type
  | H_back_router
  | H_expense_category
  | H_income_category
  | H_amount_received
  | H_payment_type_selected
  | H_comment_skip
  | H_comment_received
  | H_analysis_period
  | H_analysis_type
  | H_special_reports
  | H_balance_edit_received
  | H_debts_choose_type
  | H_debts_edit_start
  | H_debts_edit_received
  | H_cmd_help

text \<open>
  The regular expressions of the table, each tried with \<open>re.match\<close> on the payload:
  \<open>^word:\<close> (a prefix), \<open>^text$\<close>, \<open>^word:\d+$\<close>, and \<open>^word:(a|b|c)$\<close>. In Python \<open>$\<close>
  matches at the end and also before a final line feed.
\<close>

datatype pattern =
    Prefix string
  | Exact string
  | Digits string
  | OneOf string "string list"

definition at_end :: "string \<Rightarrow> bool" where
  "at_end r = (r = [] \<or> r = [CHR 0x0A])"

fun pattern_matches :: "pattern \<Rightarrow> string \<Rightarrow> bool" where
  "pattern_matches (Prefix p) d = prefix p d"
| "pattern_matches (Exact p) d = (prefix p d \<and> at_end (drop (length p) d))"
| "pattern_matches (Digits p) d =
     (prefix p d \<and> takeWhile is_digit_char (drop (length p) d) \<noteq> []
      \<and> at_end (dropWhile is_digit_char (drop (length p) d)))"
| "pattern_matches (OneOf p alts) d =
     list_ex (\<lambda>a. prefix (p @ a) d \<and> at_end (drop (length (p @ a)) d)) alts"

text \<open>
  The filters of the table. \<open>filters.TEXT & ~filters.COMMAND\<close> takes a message with a
  text that is not empty and is not a command.
\<close>

datatype update_filter = CallbackPattern pattern | TextNotCommand | CommandName string

fun accepts :: "update_filter \<Rightarrow> event \<Rightarrow> bool" where
  "accepts (CallbackPattern p) (Callback d m) = pattern_matches p d"
| "accepts TextNotCommand (TextMessage t) = (t \<noteq> [])"
| "accepts (CommandName n) (Command c) = (c = n)"
| "accepts f e = False"

text \<open>
  The \<open>states\<close> dictionary of \<open>build_app\<close> as it is written: each key is a name, each
  value the list of handlers with their filters, in order.
\<close>

definition states_table :: "(string \<times> (update_filter \<times> handler) list) list" where
  "states_table =
     [(''ST_MENU'',
         [(CallbackPattern (Prefix ''menu:''), H_on_menu),
          (CallbackPattern (OneOf ''balance:'' [''cash'', ''qr'', ''bn'']), H_balance_edit_start)]),
      (''ST_ADD_CHOOSE_TYPE'',
         [(CallbackPattern (Prefix ''type:''), H_choose_type),
          (CallbackPattern (Prefix ''back:''), H_back_router)]),
      (''ST_EXP_CATEGORY'',
         [(CallbackPattern (Digits ''expcat:''), H_expense_category),
          (CallbackPattern (Prefix ''back:''), H_back_router)]),
      (''ST_INC_CATEGORY'',
         [(CallbackPattern (Digits ''inccat:''), H_income_category),
          (CallbackPattern (Prefix ''back:''), H_back_router)]),
      (''ST_AMOUNT'', [(TextNotCommand, H_amount_received)]),
      (''ST_PAYMENT_TYPE'', [(CallbackPattern (Digits ''payment:''), H_payment_type_selected)]),
      (''ST_COMMENT'',
         [(CallbackPattern (Exact ''comment:skip''), H_comment_skip),
          (TextNotCommand, H_comment_received)]),
      (''ST_ANALYSIS_PERIOD'',
         [(CallbackPattern (Prefix ''aperiod:''), H_analysis_period),
          (CallbackPattern (Prefix ''back:''), H_back_router)]),
      (''ST_ANALYSIS_TYPE'',
         [(CallbackPattern (Prefix ''atype:''), H_analysis_type),
          (CallbackPattern (Prefix ''back:''), H_back_router)]),
      (''ST_SPECIAL_REPORTS'',
         [(CallbackPattern (Prefix ''special:''), H_special_reports),
          (CallbackPattern (Prefix ''back:''), H_back_router)]),
      (''ST_BALANCE_EDIT'', [(TextNotCommand, H_balance_edit_received)]),
      (''ST_DEBTS_CHOOSE_TYPE'',
         [(CallbackPattern (Prefix ''debts_type:''), H_debts_choose_type),
          (CallbackPattern (Exact ''debts:edit''), H_debts_edit_start),
          (CallbackPattern (Prefix ''back:''), H_back_router)]),
      (''ST_DEBTS_EDIT'', [(TextNotCommand, H_debts_edit_received)])]"

definition entry_points :: "(update_filter \<times> handler) list" where
  "entry_points = [(CommandName ''start'', H_cmd_start)]"

definition fallbacks :: "(update_filter \<times> handler) list" where
  "fallbacks = [(CommandName ''help'', H_cmd_help)]"

text \<open>
  \<open>build_app\<close> evaluates the dictionary display: every key, in order, is a name looked
  up in the module. The first name that is not bound raises \<open>NameError\<close>.
\<close>

fun eval_keys :: "(string \<times> 'a) list \<Rightarrow> exc + (state \<times> 'a) list" where
  "eval_keys [] = Inr []"
| "eval_keys ((n, v) # rest) =
     (case load_name n of
        Inl e \<Rightarrow> Inl e
      | Inr st \<Rightarrow> (case eval_keys rest of Inl e \<Rightarrow> Inl e | Inr m \<Rightarrow> Inr ((st, v) # m)))"

definition build_app :: "exc + (state \<times> (update_filter \<times> handler) list) list" where
  "build_app = eval_keys states_table"

text \<open>
  The handlers the conversation handler finds for a state: the rows of the table whose
  key is a name bound to that state. The row written under the unbound name
  \<open>ST_PAYMENT_TYPE\<close> is found for no state. This is the transition system of the
  handlers and the table as written, over the states the module defines.
\<close>

definition handlers_of :: "state \<Rightarrow> (update_filter \<times> handler) list" where
  "handlers_of st =
     concat (map snd (filter (\<lambda>row. map_of module_globals (fst row) = Some st) states_table))"

definition first_accepting :: "(update_filter \<times> handler) list \<Rightarrow> event \<Rightarrow> handler option" where
  "first_accepting hs ev = map_option snd (find (\<lambda>fh. accepts (fst fh) ev) hs)"

text \<open>
  The choice of a handler by python-telegram-bot's \<open>ConversationHandler\<close> with
  \<open>allow_reentry=True\<close>: the entry points are tried first, in every state; then, inside
  a conversation, the handlers of the current state, then the fallbacks. An update the
  conversation does not take goes to the application's second handler, the \<open>/help\<close>
  command.
\<close>

definition select_handler :: "state option \<Rightarrow> event \<Rightarrow> handler option" where
  "select_handler st ev =
     (case first_accepting entry_points ev of
        Some h \<Rightarrow> Some h
      | None \<Rightarrow>
          (case st of
             None \<Rightarrow> None
           | Some s \<Rightarrow>
               (case first_accepting (handlers_of s) ev of
                  Some h \<Rightarrow> Some h
                | None \<Rightarrow> first_accepting fallbacks ev)))"

definition app_handler :: "state option \<Rightarrow> event \<Rightarrow> handler option" where
  "app_handler st ev =
     (case select_handler st ev of
        Some h \<Rightarrow> Some h
      | None \<Rightarrow> first_accepting [(CommandName ''help'', H_cmd_help)] ev)"

text \<open>Calling a handler on the update its filter accepted.\<close>

fun run_handler :: "config \<Rightarrow> (nat \<Rightarrow> payload \<Rightarrow> http) \<Rightarrow> int \<Rightarrow> handler \<Rightarrow> event \<Rightarrow> ret io" where
  "run_handler c env uid H_cmd_start ev = cmd_start c env uid"
| "run_handler c env uid H_cmd_help ev = cmd_help c (Some uid)"
| "run_handler c env uid H_on_menu (Callback d m) = on_menu c env uid d m"
| "run_handler c env uid H_balance_edit_start (Callback d m) = balance_edit_start d m"
| "run_handler c env uid H_choose_type (Callback d m) = choose_type env uid d"
| "run_handler c env uid H_back_router (Callback d m) = back_router c env uid d"
| "run_handler c env uid H_expense_category (Callback d m) = expense_category d"
| "run_handler c env uid H_income_category (Callback d m) = income_category d"
| "run_handler c env uid H_payment_type_selected (Callback d m) = payment_type_selected d"
| "run_handler c env uid H_comment_skip (Callback d m) = comment_skip c env uid"
| "run_handler c env uid H_analysis_period (Callback d m) = analysis_period_handler d"
| "run_handler c env uid H_analysis_type (Callback d m) = analysis_type c env uid d"
| "run_handler c env uid H_special_reports (Callback d m) = special_reports c env uid d"
| "run_handler c env uid H_debts_choose_type (Callback d m) = debts_choose_type env uid d"
| "run_handler c env uid H_debts_edit_start (Callback d m) = debts_edit_start m"
| "run_handler c env uid H_amount_received (TextMessage t) = amount_received c uid t"
| "run_handler c env uid H_comment_received (TextMessage t) = comment_received c env uid t"
| "run_handler c env uid H_balance_edit_received (TextMessage t) = balance_edit_received c env uid t"
| "run_handler c env uid H_debts_edit_received (TextMessage t) = debts_edit_received c env uid t"
| "run_handler c env uid h ev = io_return Stay"

text \<open>
  One user's conversation: the state the conversation handler keeps for the user
  (\<open>None\<close>: no conversation) and the world. A handler's return value sets the state; an
  exception leaves it as it was and goes to the error handler.
\<close>

record bot =
  conv :: "state option"
  wld :: world

definition next_conv :: "state option \<Rightarrow> ret \<Rightarrow> state option" where
  "next_conv st r = (case r of Goto s \<Rightarrow> Some s | END \<Rightarrow> None | Stay \<Rightarrow> st)"

definition step :: "config \<Rightarrow> (nat \<Rightarrow> payload \<Rightarrow> http) \<Rightarrow> int \<Rightarrow> bot \<Rightarrow> event \<Rightarrow> bot" where
  "step c env uid b ev =
     (case app_handler (conv b) ev of
        None \<Rightarrow> b
      | Some h \<Rightarrow>
          (case run_handler c env uid h ev (wld b) of
             (Inl e, w') \<Rightarrow> \<lparr>conv = conv b, wld = error_handler w'\<rparr>
           | (Inr r, w') \<Rightarrow> \<lparr>conv = next_conv (conv b) r, wld = w'\<rparr>))"

definition run :: "config \<Rightarrow> (nat \<Rightarrow> payload \<Rightarrow> http) \<Rightarrow> int \<Rightarrow> bot \<Rightarrow> event list \<Rightarrow> bot" where
  "run c env uid b evs = foldl (step c env uid) b evs"

text \<open>Before the user's first update: no conversation, empty \<open>user_data\<close>.\<close>

definition initial_bot :: bot where
  "initial_bot = \<lparr>conv = None,
     wld = \<lparr>session = empty_user_data, requests = 0, next_message_id = 1, trace = []\<rparr>\<rparr>"

section \<open>An example deployment\<close>

text \<open>
  Two listed users, the first an owner; a backend that answers every request with
  success, \<open>get_categories\<close> with the category lists and every other command with a
  payload that has none of them. The concrete runs below use them.
\<close>

definition demo_config :: config where
  "demo_config = \<lparr>USER_TG_IDS = [1, 2], OWNER_IDS = [1]\<rparr>"

definition demo_categories :: gas_data where
  "demo_categories =
     \<lparr>expenses = Some [ustr_of ''Tools'', ustr_of ''Rent''],
      incomes = Some [ustr_of ''QR'', CAT_BN],
      payment_types = Some [ustr_of ''Cash'', ustr_of ''QR'']\<rparr>"

definition demo_env :: "nat \<Rightarrow> payload \<Rightarrow> http" where
  "demo_env n p =
     Body True (JsonObject (Some (JBool True)) None
       (Some (if p ''cmd'' = Some (PStr (ustr_of ''get_categories''))
              then demo_categories else no_data)))"

text \<open>
  Two backends that fail: one rejects every request and reports, as its error, the
  very words the gateway uses for a body that is not JSON; the other answers with a
  body that is not JSON.
\<close>

definition rejecting_env :: "nat \<Rightarrow> payload \<Rightarrow> http" where
  "rejecting_env n p = Body True (JsonObject (Some (JBool False)) (Some (JStr MSG_NON_JSON)) None)"

definition garbled_env :: "nat \<Rightarrow> payload \<Rightarrow> http" where
  "garbled_env n p = Body True NotJson"

text \<open>A backend request with the command \<open>add\<close>.\<close>

fun is_add_request :: "action \<Rightarrow> bool" where
  "is_add_request (GasRequest p) = (p ''cmd'' = Some (PStr (ustr_of ''add'')))"
| "is_add_request a = False"

text \<open>
  The complete expense entry of the owner: start, add, expense, the first category
  ("Tools"), the amount, the first payment type ("Cash"), skip the comment.
\<close>

definition expense_scenario :: "event list" where
  "expense_scenario =
     [Command ''start'', Callback ''menu:add'' 1, Callback ''type:expense'' 1,
      Callback ''expcat:0'' 1, TextMessage (ustr_of ''2500''), Callback ''payment:0'' 1,
      Callback ''comment:skip'' 1]"

text \<open>
  The income entry of the owner up to the amount: start, add, income, the second
  category (services by bank transfer), the amount. \<open>demo_income_bot\<close> is the
  conversation it leads to: the comment state, with a draft that lacks its comment.
\<close>

definition income_entry :: "event list" where
  "income_entry =
     [Command ''start'', Callback ''menu:add'' 1, Callback ''type:income'' 1,
      Callback ''inccat:1'' 1, TextMessage (ustr_of ''2500'')]"

definition demo_income_draft :: tx where
  "demo_income_draft =
     \<lparr>tx_type = Some INCOME, tx_category = Some CAT_BN, tx_amount = Some (Finite False 2500),
      tx_payment_type = Some CAT_BN, tx_comment = None\<rparr>"

definition demo_income_bot :: bot where
  "demo_income_bot =
     \<lparr>conv = Some ST_COMMENT,
      wld = \<lparr>session = \<lparr>working_message_id = Some 1, ud_tx = Some demo_income_draft,
                 ud_categories = Some demo_categories, analysis_period = None,
                 balance_payment_type = None, debt_type = None\<rparr>,
             requests = 3, next_message_id = 1,
             trace = [GasRequest (gas_body (cmd_payload ''summary_month'') 1),
                      GasRequest (gas_body ((cmd_payload ''get_last_transactions'')
                                              (''limit'' \<mapsto> PInt 5)) 1),
                      ReplyText MAIN_SCREEN_OWNER (Some kb_main_owner),
                      Answer, EditQueryMessage ASK_WHAT_TO_ADD (Some kb_choose_type),
                      Answer, GasRequest (gas_body (cmd_payload ''get_categories'') 1),
                      EditQueryMessage ASK_INCOME_CATEGORY
                        (Some (kb_income_categories [ustr_of ''QR'', CAT_BN])),
                      Answer, EditQueryMessage ASK_AMOUNT None,
                      DeleteUserMessage, EditMessage 1 ASK_LEGAL_ENTITY None]\<rparr>\<rparr>"

text \<open>The complete income entry of the owner: the entry above, then the comment.\<close>

definition income_scenario :: "event list" where
  "income_scenario = income_entry @ [TextMessage (ustr_of ''Acme'')]"

text \<open>What finalize posts and sends for the owner, after the working message is gone.\<close>

definition owner_main_screen :: "action list" where
  "owner_main_screen =
     [GasRequest (gas_body (cmd_payload ''summary_month'') 1),
      GasRequest (gas_body ((cmd_payload ''get_last_transactions'')(''limit'' \<mapsto> PInt 5)) 1),
      SendMessage MAIN_SCREEN_OWNER (Some kb_main_owner)]"

text \<open>
  A listed employee (user 2) starts, then presses the button \<open>balance:cash\<close> of the
  owner's balance screen and sends an amount.
\<close>

definition employee_balance_scenario :: "event list" where
  "employee_balance_scenario =
     [Command ''start'', Callback ''balance:cash'' 1, TextMessage (ustr_of ''5k'')]"

text \<open>
  The same employee starts the add flow and, at the choice of the record type, presses
  the button \<open>back:analysis_periods\<close> of the owner's analysis screen.
\<close>

definition employee_analysis_scenario :: "event list" where
  "employee_analysis_scenario =
     [Command ''start'', Callback ''menu:add'' 1, Callback ''back:analysis_periods'' 1]"

text \<open>
  The pending context of the flows that are not transaction entry: the analysis period
  and the balance or debt sub-type the user chose.
\<close>

definition pending_context :: "user_data \<Rightarrow> string option \<times> string option \<times> string option" where
  "pending_context ud = (analysis_period ud, balance_payment_type ud, debt_type ud)"


text \<open>Whatever is populated in the first session is populated in the second.\<close>

definition still_populated :: "user_data \<Rightarrow> user_data \<Rightarrow> bool" where
  "still_populated ud ud' =
     ((ud_tx ud \<noteq> None \<longrightarrow> ud_tx ud' \<noteq> None)
      \<and> (analysis_period ud \<noteq> None \<longrightarrow> analysis_period ud' \<noteq> None)
      \<and> (balance_payment_type ud \<noteq> None \<longrightarrow> balance_payment_type ud' \<noteq> None)
      \<and> (debt_type ud \<noteq> None \<longrightarrow> debt_type ud' \<noteq> None))"



text \<open>The denial a user outside the allow-list gets: for the two commands only.\<close>

definition deny_reply :: "event \<Rightarrow> action list" where
  "deny_reply ev =
     (if ev = Command ''start'' \<or> ev = Command ''help'' then [ReplyText DENY_TEXT None] else [])"

text \<open>
  An income draft is sound when it has a category and its payment type is that
  category. A request is sound unless it is an \<open>add\<close> of an income whose payment type
  is not its category.
\<close>

definition tx_ok :: "user_data \<Rightarrow> bool" where
  "tx_ok ud =
     (tx_type (get_tx ud) = Some INCOME \<longrightarrow>
        tx_category (get_tx ud) \<noteq> None \<and> tx_payment_type (get_tx ud) = tx_category (get_tx ud))"

fun income_add_ok :: "action \<Rightarrow> bool" where
  "income_add_ok (GasRequest p) =
     (p ''cmd'' = Some (PStr (ustr_of ''add'')) \<and> p ''type'' = Some (PStr INCOME) \<longrightarrow>
        (\<exists>cat. p ''category'' = Some (PStr cat) \<and> p ''payment_type'' = Some (PStr cat)))"
| "income_add_ok a = True"

definition income_inv :: "world \<Rightarrow> bool" where
  "income_inv w = (tx_ok (session w) \<and> list_all income_add_ok (trace w))"



section \<open>Backend gateway: properties\<close>

lemma ustr_of_eq_iff [simp]: "ustr_of a = ustr_of b \<longleftrightarrow> a = b"
  by (simp add: ustr_of_def inj_of_char [where ?'a = nat])

lemma payload_cmd [simp]:
  "gas_body p uid ''cmd'' = p ''cmd''"
  "cmd_payload c ''cmd'' = Some (PStr (ustr_of c))"
  by (simp_all add: gas_body_def cmd_payload_def)

text \<open>
  C7, as stated, asks that a backend-reported error and an unparseable body reach the
  caller as two distinguishable kinds of error. Both are raised as \<open>RuntimeError\<close> with
  a message, so a backend that reports the very message the gateway uses for a
  non-JSON body is indistinguishable from a non-JSON body: the same request, answered
  one way or the other, raises the same exception.
\<close>

theorem gas_error_kinds_counterexample:
  "fst (gas_request rejecting_env (cmd_payload ''add'') 7 (wld initial_bot))
     = fst (gas_request garbled_env (cmd_payload ''add'') 7 (wld initial_bot))"
  by (simp add: gas_request_def rejecting_env_def garbled_env_def ok_flag_false_def
      error_or_default_def MSG_NON_JSON_def)

text \<open>
  C7, amended. Every request that \<open>gas_request\<close> posts carries the acting user's
  identity under \<open>user_id\<close>, next to the caller's own fields. An answer served as JSON
  whose \<open>ok\<close> flag is false or missing raises \<open>RuntimeError\<close> with the backend's error
  message, or with "GAS error" when the message is missing or empty. A body that is
  not JSON, or is not served as \<open>application/json\<close>, raises \<open>RuntimeError\<close> with the
  gateway's fixed message. A timeout raises the client's \<open>TimeoutError\<close>, which no
  \<open>RuntimeError\<close> equals. Backend errors and unparseable bodies share the exception
  class and differ by their message only.
\<close>

theorem gas_request_errors:
  "(\<exists>q. trace (snd (gas_request env p uid w)) = trace w @ [GasRequest q]
        \<and> q ''user_id'' = Some (PInt uid) \<and> (\<forall>k. k \<noteq> ''user_id'' \<longrightarrow> q k = p k))
   \<and> (env (requests w) (gas_body p uid) = Body True (JsonObject ok err dat)
        \<and> (ok = None \<or> ok = Some (JBool False)) \<longrightarrow>
        fst (gas_request env p uid w) =
          Inl (RuntimeError
                 (case err of
                    None \<Rightarrow> JStr (ustr_of ''GAS error'')
                  | Some m \<Rightarrow> if truthy m then m else JStr (ustr_of ''GAS error''))))
   \<and> (env (requests w) (gas_body p uid) = Body json_type NotJson
        \<or> env (requests w) (gas_body p uid) = Body False b \<longrightarrow>
        fst (gas_request env p uid w) = Inl (RuntimeError (JStr MSG_NON_JSON)))
   \<and> (env (requests w) (gas_body p uid) = TimedOut \<longrightarrow>
        fst (gas_request env p uid w) = Inl TimeoutError)
   \<and> (\<forall>m. TimeoutError \<noteq> RuntimeError m)"
proof (intro conjI impI)
  show "\<exists>q. trace (snd (gas_request env p uid w)) = trace w @ [GasRequest q]
        \<and> q ''user_id'' = Some (PInt uid) \<and> (\<forall>k. k \<noteq> ''user_id'' \<longrightarrow> q k = p k)"
    by (rule exI [of _ "gas_body p uid"]) (simp add: gas_request_def gas_body_def)
next
  assume "env (requests w) (gas_body p uid) = Body True (JsonObject ok err dat)
        \<and> (ok = None \<or> ok = Some (JBool False))"
  then show "fst (gas_request env p uid w) =
          Inl (RuntimeError
                 (case err of
                    None \<Rightarrow> JStr (ustr_of ''GAS error'')
                  | Some m \<Rightarrow> if truthy m then m else JStr (ustr_of ''GAS error'')))"
    by (auto simp: gas_request_def ok_flag_false_def error_or_default_def)
next
  assume "env (requests w) (gas_body p uid) = Body json_type NotJson
        \<or> env (requests w) (gas_body p uid) = Body False b"
  then show "fst (gas_request env p uid w) = Inl (RuntimeError (JStr MSG_NON_JSON))"
    by (cases b) (auto simp: gas_request_def)
next
  assume "env (requests w) (gas_body p uid) = TimedOut"
  then show "fst (gas_request env p uid w) = Inl TimeoutError"
    by (simp add: gas_request_def)
next
  show "\<forall>m. TimeoutError \<noteq> RuntimeError m" by simp
qed

theorem gas_request_errors_witness:
  "trace (snd (gas_request rejecting_env (cmd_payload ''add'') 7 (wld initial_bot)))
     = [GasRequest ((cmd_payload ''add'')(''user_id'' \<mapsto> PInt 7))]
   \<and> fst (gas_request rejecting_env (cmd_payload ''add'') 7 (wld initial_bot))
     = Inl (RuntimeError (JStr MSG_NON_JSON))
   \<and> fst (gas_request garbled_env (cmd_payload ''add'') 7 (wld initial_bot))
     = Inl (RuntimeError (JStr MSG_NON_JSON))
   \<and> fst (gas_request (\<lambda>n q. TimedOut) (cmd_payload ''add'') 7 (wld initial_bot))
     = Inl TimeoutError"
  using gas_request_errors [of rejecting_env "cmd_payload ''add''" 7 "wld initial_bot"
      "Some (JBool False)" "Some (JStr MSG_NON_JSON)" None True NotJson]
    gas_request_errors [of garbled_env "cmd_payload ''add''" 7 "wld initial_bot"
      None None None True NotJson]
    gas_request_errors [of "\<lambda>n q. TimedOut" "cmd_payload ''add''" 7 "wld initial_bot"
      None None None True NotJson]
  by (simp add: rejecting_env_def garbled_env_def initial_bot_def gas_request_def gas_body_def
      MSG_NON_JSON_def)

section \<open>The handler table: basic facts\<close>

lemma handlers_of_simps:
  "handlers_of ST_MENU =
     [(CallbackPattern (Prefix ''menu:''), H_on_menu),
      (CallbackPattern (OneOf ''balance:'' [''cash'', ''qr'', ''bn'']), H_balance_edit_start)]"
  "handlers_of ST_ADD_CHOOSE_TYPE =
     [(CallbackPattern (Prefix ''type:''), H_choose_type),
      (CallbackPattern (Prefix ''back:''), H_back_router)]"
  "handlers_of ST_EXP_CATEGORY =
     [(CallbackPattern (Digits ''expcat:''), H_expense_category),
      (CallbackPattern (Prefix ''back:''), H_back_router)]"
  "handlers_of ST_EXP_PAYMENT_TYPE = []"
  "handlers_of ST_AMOUNT = [(TextNotCommand, H_amount_received)]"
  "handlers_of ST_COMMENT =
     [(CallbackPattern (Exact ''comment:skip''), H_comment_skip),
      (TextNotCommand, H_comment_received)]"
  "handlers_of ST_INC_CATEGORY =
     [(CallbackPattern (Digits ''inccat:''), H_income_category),
      (CallbackPattern (Prefix ''back:''), H_back_router)]"
  "handlers_of ST_ANALYSIS_PERIOD =
     [(CallbackPattern (Prefix ''aperiod:''), H_analysis_period),
      (CallbackPattern (Prefix ''back:''), H_back_router)]"
  "handlers_of ST_ANALYSIS_TYPE =
     [(CallbackPattern (Prefix ''atype:''), H_analysis_type),
      (CallbackPattern (Prefix ''back:''), H_back_router)]"
  "handlers_of ST_SPECIAL_REPORTS =
     [(CallbackPattern (Prefix ''special:''), H_special_reports),
      (CallbackPattern (Prefix ''back:''), H_back_router)]"
  "handlers_of ST_BALANCE_CHOOSE_TYPE = []"
  "handlers_of ST_BALANCE_EDIT = [(TextNotCommand, H_balance_edit_received)]"
  "handlers_of ST_DEBTS_CHOOSE_TYPE =
     [(CallbackPattern (Prefix ''debts_type:''), H_debts_choose_type),
      (CallbackPattern (Exact ''debts:edit''), H_debts_edit_start),
      (CallbackPattern (Prefix ''back:''), H_back_router)]"
  "handlers_of ST_DEBTS_EDIT = [(TextNotCommand, H_debts_edit_received)]"
  by (simp_all add: handlers_of_def states_table_def module_globals_def)

lemma build_app_raises: "build_app = Inl (NameError ''ST_PAYMENT_TYPE'')"
  by (simp add: build_app_def states_table_def load_name_def module_globals_def)

lemmas dispatch_defs = app_handler_def select_handler_def first_accepting_def entry_points_def
  fallbacks_def handlers_of_simps

lemmas world_defs = seq_def emit_def send_def send_message_def send_working_def
  set_working_message_id_def set_tx_def update_tx_def delete_working_message_def edit_working_def
  set_categories_def set_analysis_period_def set_balance_payment_type_def set_debt_type_def
  io_bind_def io_return_def io_raise_def error_handler_def

lemmas string_eval = ustr_of_def squeeze_def strip_def lower_cp_def is_space_def has_k_suffix_def
  fix_separators_def is_sep_def rfind_def numeric_chars_def is_digit_def

lemmas float_eval = py_float_def float_body_def digits_value_def is_digit_def
  to_double_def ulp_exp_def floor_log2_def bitlen.simps round_at_def round_half_even_def
  float_mul_def round2_def mk_float_def finish_amount_def

lemma parse_2500: "parse_amount (ustr_of ''2500'') = Some (Finite False 2500)"
  by (simp add: parse_amount_def string_eval float_eval)

lemmas handler_defs = cmd_start_def on_menu_def back_router_def choose_type_def
  expense_category_def income_category_def amount_received_def payment_type_selected_def
  save_and_finish_def comment_skip_def comment_received_def analysis_period_handler_def
  analysis_type_def special_reports_def balance_edit_start_def balance_edit_received_def
  debts_choose_type_def debts_edit_start_def debts_edit_received_def cmd_help_def
  main_screen_def main_screen_text_owner_def main_screen_text_employee_def get_categories_def
  show_main_screen_def gas_request_def expenses_of_def incomes_of_def index_def

lemma ustr_of_Nil_iff [simp]: "ustr_of s = [] \<longleftrightarrow> s = []" "[] = ustr_of s \<longleftrightarrow> s = []"
  by (auto simp: ustr_of_def)

lemma add_payload_cmd [simp]: "add_payload t ''cmd'' = Some (PStr (ustr_of ''add''))"
  by (simp add: add_payload_def)

lemma demo_env_simps [simp]:
  "gas_result (demo_env n (gas_body p uid)) =
     Inr (if p ''cmd'' = Some (PStr (ustr_of ''get_categories'')) then demo_categories else no_data)"
  by (simp add: demo_env_def ok_flag_false_def)

lemmas eval_defs = step_def dispatch_defs handler_defs world_defs is_allowed_def is_owner_def
  next_conv_def demo_config_def demo_categories_def no_data_def initial_bot_def
  empty_user_data_def empty_tx_def get_tx_def cached_expenses_def cached_incomes_def
  cached_payment_types_def field1_def py_int_def is_digit_char_def at_end_def load_name_def
  module_globals_def CAT_BN_def EXPENSE_def INCOME_def

section \<open>What the handlers do to the session\<close>

text \<open>
  A property of the world that holds after the first part of a sequence, and after
  the second part whatever the first returned, holds after the sequence.
\<close>

lemma bind_I:
  assumes "I (snd (m w))" and "\<And>x. I (snd (f x (snd (m w))))"
  shows "I (snd (io_bind m f w))"
  using assms by (cases "m w"; cases "fst (m w)") (auto simp: io_bind_def)

lemma seq_simps [simp]: "seq [] w = w" "seq (f # fs) w = seq fs (f w)"
  by (simp_all add: seq_def)

lemma session_prims [simp]:
  "session (emit a w) = session w"
  "session (send t kb w) = session w"
  "session (send_working t w) = (session w)\<lparr>working_message_id := Some (next_message_id w)\<rparr>"
  "session (set_working_message_id x w) = (session w)\<lparr>working_message_id := x\<rparr>"
  "session (set_tx tr w) = (session w)\<lparr>ud_tx := Some tr\<rparr>"
  "session (update_tx g w) = (session w)\<lparr>ud_tx := Some (g (get_tx (session w)))\<rparr>"
  "session (delete_working_message w) = (session w)\<lparr>working_message_id := None\<rparr>"
  "session (edit_working t kb w) = session w"
  "session (set_categories cats w) = (session w)\<lparr>ud_categories := Some cats\<rparr>"
  "session (set_analysis_period s w) = (session w)\<lparr>analysis_period := Some s\<rparr>"
  "session (set_balance_payment_type s w) = (session w)\<lparr>balance_payment_type := Some s\<rparr>"
  "session (set_debt_type s w) = (session w)\<lparr>debt_type := Some s\<rparr>"
  "session (error_handler w) = session w"
  "session (snd (gas_request env p uid w)) = session w"
  by (simp_all add: world_defs gas_request_def split: option.splits)

lemma session_blocks [simp]:
  "session (snd (main_screen_text_owner env uid w)) = session w"
  "session (snd (main_screen_text_employee env uid w)) = session w"
  "session (snd (get_categories env uid w)) = session w"
  by (auto simp: main_screen_text_owner_def main_screen_text_employee_def get_categories_def
      io_return_def io_raise_def intro!: bind_I [where I = "\<lambda>v. session v = session w"])

lemma session_main_screen [simp]:
  "session (snd (main_screen c env uid w)) = session w"
  by (auto simp: main_screen_def io_return_def
      intro!: bind_I [where I = "\<lambda>v. session v = session w"])

lemma session_show_main_screen [simp]:
  "session (snd (show_main_screen c env uid w)) = session w"
  by (auto simp: show_main_screen_def intro!: bind_I [where I = "\<lambda>v. session v = session w"])

lemma session_save_and_finish [simp]:
  "session (snd (save_and_finish c env uid w)) = (session w)\<lparr>working_message_id := None\<rparr>"
proof (cases "gas_request env (add_payload (get_tx (session w))) uid (delete_working_message w)")
  case (Pair r w')
  have "session w' = (session w)\<lparr>working_message_id := None\<rparr>"
    using session_prims(14) [of env "add_payload (get_tx (session w))" uid "delete_working_message w"]
    by (simp add: Pair)
  then show ?thesis
    by (cases r) (simp_all add: save_and_finish_def Pair split: option.splits)
qed

lemma pending_simps [simp]:
  "pending_context (ud\<lparr>working_message_id := x\<rparr>) = pending_context ud"
  "pending_context (ud\<lparr>ud_tx := y\<rparr>) = pending_context ud"
  "pending_context (ud\<lparr>ud_categories := z\<rparr>) = pending_context ud"
  by (simp_all add: pending_context_def)

lemmas bind_P = bind_I [where I = "\<lambda>v. pending_context (session v) = p" for p]

lemma P_on_menu:
  "pending_context (session (snd (on_menu c env uid d mid w))) = pending_context (session w)"
  by (simp add: on_menu_def;
      ((intro conjI impI allI bind_P)?; simp add: io_return_def split: sum.splits prod.splits option.splits)+)


lemma P_back_router:
  "pending_context (session (snd (back_router c env uid d w))) = pending_context (session w)"
  by (simp add: back_router_def;
      ((intro conjI impI allI bind_P)?; simp add: io_return_def split: sum.splits prod.splits option.splits)+)







lemma P_analysis_type:
  "pending_context (session (snd (analysis_type c env uid d w))) = pending_context (session w)"
  by (simp add: analysis_type_def;
      ((intro conjI impI allI bind_P)?; simp add: io_return_def split: sum.splits prod.splits option.splits)+)

lemma P_special_reports:
  "pending_context (session (snd (special_reports c env uid d w))) = pending_context (session w)"
  by (simp add: special_reports_def;
      ((intro conjI impI allI bind_P)?; simp add: io_return_def split: sum.splits prod.splits option.splits)+)

lemma P_balance_edit_received:
  "pending_context (session (snd (balance_edit_received c env uid t w))) = pending_context (session w)"
  by (simp add: balance_edit_received_def;
      ((intro conjI impI allI bind_P)?; simp add: io_return_def split: sum.splits prod.splits option.splits)+)

lemma P_debts_edit_start:
  "pending_context (session (snd (debts_edit_start mid w))) = pending_context (session w)"
  by (simp add: debts_edit_start_def;
      ((intro conjI impI allI bind_P)?; simp add: io_return_def split: sum.splits prod.splits option.splits)+)

lemma P_debts_edit_received:
  "pending_context (session (snd (debts_edit_received c env uid t w))) = pending_context (session w)"
  by (simp add: debts_edit_received_def;
      ((intro conjI impI allI bind_P)?; simp add: io_return_def split: sum.splits prod.splits option.splits)+)

lemma P_cmd_help:
  "pending_context (session (snd (cmd_help c user w))) = pending_context (session w)"
  by (simp add: cmd_help_def;
      ((intro conjI impI allI bind_P)?; simp add: io_return_def split: sum.splits prod.splits option.splits)+)













lemma first_accepting_mem:
  assumes "first_accepting hs ev = Some h"
  shows "\<exists>f. (f, h) \<in> set hs \<and> accepts f ev"
proof -
  from assms obtain fh where "find (\<lambda>fh. accepts (fst fh) ev) hs = Some fh" and "snd fh = h"
    by (auto simp: first_accepting_def)
  then have "fh \<in> set hs" and "accepts (fst fh) ev"
    by (auto simp: find_Some_iff)
  then have "(fst fh, h) \<in> set hs \<and> accepts (fst fh) ev"
    using \<open>snd fh = h\<close> by (metis prod.collapse)
  then show ?thesis by blast
qed





section \<open>The expense entry\<close>

text \<open>
  C1 asks that the complete expense entry ends in exactly one \<open>add\<close> request and the
  Menu. The name \<open>ST_PAYMENT_TYPE\<close> is used for the payment state by the handler table
  and by \<open>amount_received\<close>, and is bound nowhere: building the table raises
  \<open>NameError\<close>, and so does the return of \<open>amount_received\<close> for an expense. In the run of
  the scenario the amount is stored and the payment keyboard is shown, then the
  handler raises: the user gets the error handler's apology, the state stays the
  amount state, where the two remaining button presses are taken by no handler. No
  \<open>add\<close> request is ever posted and the Menu is not shown again.
\<close>

theorem expense_flow_name_error:
  "build_app = Inl (NameError ''ST_PAYMENT_TYPE'')
   \<and> run demo_config demo_env 1 initial_bot expense_scenario =
       \<lparr>conv = Some ST_AMOUNT,
        wld = \<lparr>session = \<lparr>working_message_id = Some 1,
                   ud_tx = Some \<lparr>tx_type = Some EXPENSE, tx_category = Some (ustr_of ''Tools''),
                             tx_amount = Some (Finite False 2500), tx_payment_type = None,
                             tx_comment = None\<rparr>,
                   ud_categories = Some demo_categories, analysis_period = None,
                   balance_payment_type = None, debt_type = None\<rparr>,
               requests = 3, next_message_id = 1,
               trace = [GasRequest (gas_body (cmd_payload ''summary_month'') 1),
                        GasRequest (gas_body ((cmd_payload ''get_last_transactions'')
                                                (''limit'' \<mapsto> PInt 5)) 1),
                        ReplyText MAIN_SCREEN_OWNER (Some kb_main_owner),
                        Answer, EditQueryMessage ASK_WHAT_TO_ADD (Some kb_choose_type),
                        Answer, GasRequest (gas_body (cmd_payload ''get_categories'') 1),
                        EditQueryMessage ASK_EXPENSE_CATEGORY
                          (Some (kb_expense_categories [ustr_of ''Tools'', ustr_of ''Rent''])),
                        Answer, EditQueryMessage ASK_AMOUNT None,
                        DeleteUserMessage,
                        EditMessage 1 ASK_PAYMENT_TYPE
                          (Some (kb_payment_types [ustr_of ''Cash'', ustr_of ''QR''])),
                        ReplyText SOMETHING_WENT_WRONG None]\<rparr>\<rparr>
   \<and> filter is_add_request
         (trace (wld (run demo_config demo_env 1 initial_bot expense_scenario))) = []"
proof -
  have r: "run demo_config demo_env 1 initial_bot expense_scenario =
       \<lparr>conv = Some ST_AMOUNT,
        wld = \<lparr>session = \<lparr>working_message_id = Some 1,
                   ud_tx = Some \<lparr>tx_type = Some EXPENSE, tx_category = Some (ustr_of ''Tools''),
                             tx_amount = Some (Finite False 2500), tx_payment_type = None,
                             tx_comment = None\<rparr>,
                   ud_categories = Some demo_categories, analysis_period = None,
                   balance_payment_type = None, debt_type = None\<rparr>,
               requests = 3, next_message_id = 1,
               trace = [GasRequest (gas_body (cmd_payload ''summary_month'') 1),
                        GasRequest (gas_body ((cmd_payload ''get_last_transactions'')
                                                (''limit'' \<mapsto> PInt 5)) 1),
                        ReplyText MAIN_SCREEN_OWNER (Some kb_main_owner),
                        Answer, EditQueryMessage ASK_WHAT_TO_ADD (Some kb_choose_type),
                        Answer, GasRequest (gas_body (cmd_payload ''get_categories'') 1),
                        EditQueryMessage ASK_EXPENSE_CATEGORY
                          (Some (kb_expense_categories [ustr_of ''Tools'', ustr_of ''Rent''])),
                        Answer, EditQueryMessage ASK_AMOUNT None,
                        DeleteUserMessage,
                        EditMessage 1 ASK_PAYMENT_TYPE
                          (Some (kb_payment_types [ustr_of ''Cash'', ustr_of ''QR''])),
                        ReplyText SOMETHING_WENT_WRONG None]\<rparr>\<rparr>"
    by (simp add: run_def expense_scenario_def eval_defs parse_2500)
  have f: "filter is_add_request
         (trace (wld (run demo_config demo_env 1 initial_bot expense_scenario))) = []"
    unfolding r by (simp add: gas_body_def cmd_payload_def ustr_of_def)
  show ?thesis using build_app_raises r f by blast
qed

section \<open>Users outside the allow-list\<close>

lemma unlisted_step:
  assumes "uid \<notin> set (USER_TG_IDS c)" and "conv b = None"
  shows "step c env uid b ev = b\<lparr>wld := (wld b)\<lparr>trace := trace (wld b) @ deny_reply ev\<rparr>\<rparr>"
  using assms
  by (cases ev)
     (auto simp: step_def dispatch_defs cmd_start_def cmd_help_def is_allowed_def next_conv_def
        world_defs deny_reply_def)

text \<open>
  C9, as stated, has every event of an unlisted user answered with the denial text.
  A text message of such a user is taken by no handler: nothing is sent at all.
\<close>

theorem unlisted_text_counterexample:
  "trace (wld (step demo_config demo_env 3 initial_bot (TextMessage (ustr_of ''hello'')))) = []"
  by (simp add: unlisted_step demo_config_def initial_bot_def deny_reply_def)

text \<open>
  C9, amended. A user outside the allow-list has no conversation. Whatever events such
  a user sends, no conversation is created, the session data and the backend are not
  touched, and the only things sent are the denial text, once for each \<open>/start\<close> and each
  \<open>/help\<close>; button presses and text messages get no answer.
\<close>

theorem unlisted_user_run:
  assumes "uid \<notin> set (USER_TG_IDS c)" and "conv b = None"
  shows "run c env uid b evs =
           b\<lparr>wld := (wld b)\<lparr>trace := trace (wld b) @ concat (map deny_reply evs)\<rparr>\<rparr>"
  using assms(2)
proof (induction evs arbitrary: b)
  case Nil
  then show ?case by (simp add: run_def)
next
  case (Cons ev evs)
  let ?b = "step c env uid b ev"
  have s: "?b = b\<lparr>wld := (wld b)\<lparr>trace := trace (wld b) @ deny_reply ev\<rparr>\<rparr>"
    using unlisted_step [OF assms(1) Cons.prems] .
  then have "conv ?b = None" using Cons.prems by simp
  from Cons.IH [OF this] have "run c env uid ?b evs =
      ?b\<lparr>wld := (wld ?b)\<lparr>trace := trace (wld ?b) @ concat (map deny_reply evs)\<rparr>\<rparr>" .
  then show ?case by (simp add: run_def s)
qed

theorem unlisted_user_run_witness:
  "run demo_config demo_env 3 initial_bot
     [Command ''start'', TextMessage (ustr_of ''hello''), Callback ''menu:add'' 1, Command ''help''] =
   \<lparr>conv = None,
    wld = \<lparr>session = empty_user_data, requests = 0, next_message_id = 1,
           trace = [ReplyText DENY_TEXT None, ReplyText DENY_TEXT None]\<rparr>\<rparr>"
  using unlisted_user_run [of 3 demo_config initial_bot demo_env
      "[Command ''start'', TextMessage (ustr_of ''hello''), Callback ''menu:add'' 1, Command ''help'']"]
  by (simp add: demo_config_def initial_bot_def deny_reply_def)

section \<open>The mandatory comment of an income record\<close>

lemma parse_5k: "parse_amount (ustr_of ''5k'') = Some (Finite False 5000)"
  by (simp add: parse_amount_def string_eval float_eval)

lemma income_entry_run: "run demo_config demo_env 1 initial_bot income_entry = demo_income_bot"
  by (simp add: run_def income_entry_def demo_income_bot_def demo_income_draft_def eval_defs
      parse_2500)

text \<open>
  What holds of the text path. In the comment state, with an income draft, a listed
  user sends a text that is empty once stripped of white space: the state stays the
  comment state, the draft is left as it was, no backend request is made, and the last
  thing sent is the prompt that says the comment is required.
\<close>

lemma income_comment_text_rejected:
  assumes "conv b = Some ST_COMMENT" and "uid \<in> set (USER_TG_IDS c)"
    and "tx_type (get_tx (session (wld b))) = Some INCOME" and "t \<noteq> []" and "strip t = []"
  shows "conv (step c env uid b (TextMessage t)) = Some ST_COMMENT
       \<and> ud_tx (session (wld (step c env uid b (TextMessage t)))) = ud_tx (session (wld b))
       \<and> requests (wld (step c env uid b (TextMessage t))) = requests (wld b)
       \<and> last (trace (wld (step c env uid b (TextMessage t)))) =
           SendMessage (if tx_category (get_tx (session (wld b))) = Some CAT_BN
                        then LEGAL_ENTITY_REQUIRED else CLIENT_OR_CAR_REQUIRED) None"
  using assms
  by (auto simp: step_def dispatch_defs comment_received_def is_allowed_def next_conv_def
      world_defs get_tx_def split: option.splits)

text \<open>
  C5 asks that an income record cannot be saved with an empty comment: the user is
  asked again, the state stays the comment state and the comment stays unset.
  \<open>comment_received\<close> checks this for a text message (its source comment says the
  comment is mandatory for incomes). \<open>comment_skip\<close>, registered in the same state,
  has no such check: in the income entry of the owner, after the amount, the button
  press \<open>comment:skip\<close> stores the empty comment in the draft, posts the \<open>add\<close> request
  of the income with the empty comment, acknowledges it and leaves for the Menu.
\<close>

theorem income_comment_skip_saves:
  "run demo_config demo_env 1 initial_bot income_entry = demo_income_bot
   \<and> step demo_config demo_env 1 demo_income_bot (Callback ''comment:skip'' 1) =
       \<lparr>conv = Some ST_MENU,
        wld = \<lparr>session = \<lparr>working_message_id = None,
                   ud_tx = Some (demo_income_draft\<lparr>tx_comment := Some []\<rparr>),
                   ud_categories = Some demo_categories, analysis_period = None,
                   balance_payment_type = None, debt_type = None\<rparr>,
               requests = 6, next_message_id = 3,
               trace = trace (wld demo_income_bot)
                 @ [Answer, DeleteMessage 1,
                    GasRequest (gas_body (add_payload (demo_income_draft\<lparr>tx_comment := Some []\<rparr>)) 1),
                    SendMessage (SAVED (demo_income_draft\<lparr>tx_comment := Some []\<rparr>)) None]
                 @ owner_main_screen\<rparr>\<rparr>
   \<and> add_payload (demo_income_draft\<lparr>tx_comment := Some []\<rparr>) ''type'' = Some (PStr INCOME)
   \<and> add_payload (demo_income_draft\<lparr>tx_comment := Some []\<rparr>) ''comment'' = Some (PStr [])"
proof -
  have s: "step demo_config demo_env 1 demo_income_bot (Callback ''comment:skip'' 1) =
       \<lparr>conv = Some ST_MENU,
        wld = \<lparr>session = \<lparr>working_message_id = None,
                   ud_tx = Some (demo_income_draft\<lparr>tx_comment := Some []\<rparr>),
                   ud_categories = Some demo_categories, analysis_period = None,
                   balance_payment_type = None, debt_type = None\<rparr>,
               requests = 6, next_message_id = 3,
               trace = trace (wld demo_income_bot)
                 @ [Answer, DeleteMessage 1,
                    GasRequest (gas_body (add_payload (demo_income_draft\<lparr>tx_comment := Some []\<rparr>)) 1),
                    SendMessage (SAVED (demo_income_draft\<lparr>tx_comment := Some []\<rparr>)) None]
                 @ owner_main_screen\<rparr>\<rparr>"
    by (simp add: demo_income_bot_def demo_income_draft_def owner_main_screen_def eval_defs)
  have p: "add_payload (demo_income_draft\<lparr>tx_comment := Some []\<rparr>) ''type'' = Some (PStr INCOME)"
    "add_payload (demo_income_draft\<lparr>tx_comment := Some []\<rparr>) ''comment'' = Some (PStr [])"
    by (simp_all add: add_payload_def demo_income_draft_def opt_str_def)
  show ?thesis using income_entry_run s p by blast
qed

section \<open>Role gating\<close>

text \<open>
  What holds of the menu. A listed user who is not an owner presses one of the three
  owner-only menu entries (analysis, balance, debts) in the Menu state: the bot
  answers the button press and shows the access-denied alert, and nothing else
  happens.
\<close>

lemma menu_entries_gated:
  assumes "uid \<in> set (USER_TG_IDS c)" and "uid \<notin> set (OWNER_IDS c)"
    and "conv b = Some ST_MENU"
    and "d = ''menu:analysis'' \<or> d = ''menu:balance'' \<or> d = ''menu:debts''"
  shows "step c env uid b (Callback d m) =
           b\<lparr>wld := (wld b)\<lparr>trace := trace (wld b) @ [Answer, AnswerAlert ACCESS_DENIED]\<rparr>\<rparr>"
  using assms
  by (auto simp: step_def dispatch_defs on_menu_def is_allowed_def is_owner_def next_conv_def
      world_defs)

text \<open>
  C6 asks that every attempt of a user who is not an owner to enter the analysis, the
  balance or the debts branch is answered with the access-denied notice and leaves the
  state at Menu. Only \<open>on_menu\<close> checks the role. In the Menu state the button
  \<open>balance:cash\<close> of the owner's balance screen is taken by \<open>balance_edit_start\<close>, which
  checks nothing: the employee of the example enters the balance edit state, the
  amount sent next is posted to the backend as a \<open>set_balance\<close> request, and the
  owner's main screen is sent. No access-denied notice is ever sent. In the same way
  \<open>back_router\<close> takes \<open>back:analysis_periods\<close> from the type choice of the add flow and
  puts the employee in the analysis period state.
\<close>

theorem employee_sets_balance:
  "\<not> is_owner demo_config 2
   \<and> conv (run demo_config demo_env 2 initial_bot (take 2 employee_balance_scenario))
       = Some ST_BALANCE_EDIT
   \<and> run demo_config demo_env 2 initial_bot employee_balance_scenario =
       \<lparr>conv = Some ST_MENU,
        wld = \<lparr>session = \<lparr>working_message_id = None, ud_tx = None, ud_categories = None,
                   analysis_period = None, balance_payment_type = Some ''cash'',
                   debt_type = None\<rparr>,
               requests = 4, next_message_id = 3,
               trace = [GasRequest (gas_body ((cmd_payload ''get_last_transactions'')
                                                (''limit'' \<mapsto> PInt 10)) 2),
                        ReplyText MAIN_SCREEN_EMPLOYEE (Some kb_main_employee),
                        Answer, EditQueryMessage (ASK_BALANCE ''cash'') None,
                        DeleteUserMessage,
                        GasRequest (gas_body ((cmd_payload ''set_balance'')
                                                (''amount'' \<mapsto> PFloat (Finite False 5000),
                                                 ''payment_type'' \<mapsto> PStr (ustr_of ''cash''))) 2),
                        DeleteMessage 1,
                        SendMessage (BALANCE_SET ''cash'' (Finite False 5000)) None,
                        GasRequest (gas_body (cmd_payload ''summary_month'') 2),
                        GasRequest (gas_body ((cmd_payload ''get_last_transactions'')
                                                (''limit'' \<mapsto> PInt 5)) 2),
                        SendMessage MAIN_SCREEN_OWNER (Some kb_main_owner)]\<rparr>\<rparr>
   \<and> run demo_config demo_env 2 initial_bot employee_analysis_scenario =
       \<lparr>conv = Some ST_ANALYSIS_PERIOD,
        wld = \<lparr>session = \<lparr>working_message_id = Some 1, ud_tx = None, ud_categories = None,
                   analysis_period = None, balance_payment_type = None, debt_type = None\<rparr>,
               requests = 1, next_message_id = 1,
               trace = [GasRequest (gas_body ((cmd_payload ''get_last_transactions'')
                                                (''limit'' \<mapsto> PInt 10)) 2),
                        ReplyText MAIN_SCREEN_EMPLOYEE (Some kb_main_employee),
                        Answer, EditQueryMessage ASK_WHAT_TO_ADD (Some kb_choose_type),
                        Answer,
                        EditQueryMessage ASK_ANALYSIS_PERIOD (Some kb_analysis_periods)]\<rparr>\<rparr>"
proof -
  have o: "\<not> is_owner demo_config 2"
    by (simp add: is_owner_def demo_config_def)
  have a: "conv (run demo_config demo_env 2 initial_bot (take 2 employee_balance_scenario))
       = Some ST_BALANCE_EDIT"
    by (simp add: run_def employee_balance_scenario_def eval_defs)
  have b: "run demo_config demo_env 2 initial_bot employee_balance_scenario =
       \<lparr>conv = Some ST_MENU,
        wld = \<lparr>session = \<lparr>working_message_id = None, ud_tx = None, ud_categories = None,
                   analysis_period = None, balance_payment_type = Some ''cash'',
                   debt_type = None\<rparr>,
               requests = 4, next_message_id = 3,
               trace = [GasRequest (gas_body ((cmd_payload ''get_last_transactions'')
                                                (''limit'' \<mapsto> PInt 10)) 2),
                        ReplyText MAIN_SCREEN_EMPLOYEE (Some kb_main_employee),
                        Answer, EditQueryMessage (ASK_BALANCE ''cash'') None,
                        DeleteUserMessage,
                        GasRequest (gas_body ((cmd_payload ''set_balance'')
                                                (''amount'' \<mapsto> PFloat (Finite False 5000),
                                                 ''payment_type'' \<mapsto> PStr (ustr_of ''cash''))) 2),
                        DeleteMessage 1,
                        SendMessage (BALANCE_SET ''cash'' (Finite False 5000)) None,
                        GasRequest (gas_body (cmd_payload ''summary_month'') 2),
                        GasRequest (gas_body ((cmd_payload ''get_last_transactions'')
                                                (''limit'' \<mapsto> PInt 5)) 2),
                        SendMessage MAIN_SCREEN_OWNER (Some kb_main_owner)]\<rparr>\<rparr>"
    by (simp add: run_def employee_balance_scenario_def eval_defs parse_5k)
  have c: "run demo_config demo_env 2 initial_bot employee_analysis_scenario =
       \<lparr>conv = Some ST_ANALYSIS_PERIOD,
        wld = \<lparr>session = \<lparr>working_message_id = Some 1, ud_tx = None, ud_categories = None,
                   analysis_period = None, balance_payment_type = None, debt_type = None\<rparr>,
               requests = 1, next_message_id = 1,
               trace = [GasRequest (gas_body ((cmd_payload ''get_last_transactions'')
                                                (''limit'' \<mapsto> PInt 10)) 2),
                        ReplyText MAIN_SCREEN_EMPLOYEE (Some kb_main_employee),
                        Answer, EditQueryMessage ASK_WHAT_TO_ADD (Some kb_choose_type),
                        Answer,
                        EditQueryMessage ASK_ANALYSIS_PERIOD (Some kb_analysis_periods)]\<rparr>\<rparr>"
    by (simp add: run_def employee_analysis_scenario_def eval_defs)
  show ?thesis using o a b c by blast
qed

section \<open>The draft and the pending context\<close>

lemma still_populated_simps [simp]:
  "still_populated ud ud"
  "still_populated ud (ud'\<lparr>working_message_id := x\<rparr>) = still_populated ud ud'"
  "still_populated ud (ud'\<lparr>ud_categories := z\<rparr>) = still_populated ud ud'"
  "still_populated ud ud' \<Longrightarrow> still_populated ud (ud'\<lparr>ud_tx := Some y\<rparr>)"
  "still_populated ud ud' \<Longrightarrow> still_populated ud (ud'\<lparr>analysis_period := Some s\<rparr>)"
  "still_populated ud ud' \<Longrightarrow> still_populated ud (ud'\<lparr>balance_payment_type := Some s\<rparr>)"
  "still_populated ud ud' \<Longrightarrow> still_populated ud (ud'\<lparr>debt_type := Some s\<rparr>)"
  by (simp_all add: still_populated_def)


































section \<open>The payment type of an income record\<close>

lemma income_add_ok_others [simp]:
  "income_add_ok Answer" "income_add_ok (AnswerAlert t)" "income_add_ok (EditQueryMessage t kb)"
  "income_add_ok (EditMessage n t kb)" "income_add_ok (ReplyText t kb)"
  "income_add_ok (SendMessage t kb)" "income_add_ok (DeleteMessage n)"
  "income_add_ok DeleteUserMessage"
  by simp_all

lemma other_requests_ok [simp]:
  "c \<noteq> ''add'' \<Longrightarrow> income_add_ok (GasRequest (gas_body (cmd_payload c) uid))"
  "c \<noteq> ''add'' \<Longrightarrow> k \<noteq> ''cmd'' \<Longrightarrow> income_add_ok (GasRequest (gas_body ((cmd_payload c)(k \<mapsto> v)) uid))"
  "c \<noteq> ''add'' \<Longrightarrow> k \<noteq> ''cmd'' \<Longrightarrow> k' \<noteq> ''cmd'' \<Longrightarrow>
     income_add_ok (GasRequest (gas_body ((cmd_payload c)(k \<mapsto> v, k' \<mapsto> v')) uid))"
  by (simp_all add: income_add_ok.simps gas_body_def cmd_payload_def)

lemma add_request_ok0:
  "tx_ok ud \<Longrightarrow> income_add_ok (GasRequest (gas_body (add_payload (get_tx ud)) uid))"
  by (auto simp: tx_ok_def gas_body_def add_payload_def opt_str_def split: option.splits)

declare income_add_ok.simps(1) [simp del]

lemma trace_prims [simp]:
  "trace (emit a w) = trace w @ [a]"
  "trace (send t kb w) = trace w @ [SendMessage t kb]"
  "trace (send_working t w) = trace w @ [SendMessage t None]"
  "trace (set_working_message_id x w) = trace w"
  "trace (set_tx tr w) = trace w"
  "trace (update_tx g w) = trace w"
  "trace (set_categories cats w) = trace w"
  "trace (set_analysis_period s w) = trace w"
  "trace (set_balance_payment_type s w) = trace w"
  "trace (set_debt_type s w) = trace w"
  "trace (error_handler w) = trace w @ [ReplyText SOMETHING_WENT_WRONG None]"
  "trace (snd (gas_request env p uid w)) = trace w @ [GasRequest (gas_body p uid)]"
  by (simp_all add: world_defs gas_request_def)

lemma tx_ok_simps [simp]:
  "tx_ok (ud\<lparr>working_message_id := x\<rparr>) = tx_ok ud"
  "tx_ok (ud\<lparr>ud_categories := y\<rparr>) = tx_ok ud"
  "tx_ok (ud\<lparr>analysis_period := z\<rparr>) = tx_ok ud"
  "tx_ok (ud\<lparr>balance_payment_type := z\<rparr>) = tx_ok ud"
  "tx_ok (ud\<lparr>debt_type := z\<rparr>) = tx_ok ud"
  "tx_ok empty_user_data"
  "tx_ok (ud\<lparr>ud_tx := Some empty_tx\<rparr>)"
  "tx_ok (ud\<lparr>ud_tx := Some ((get_tx ud)\<lparr>tx_type := Some EXPENSE, tx_category := Some cat\<rparr>)\<rparr>)"
  "tx_ok (ud\<lparr>ud_tx := Some ((get_tx ud)\<lparr>tx_type := Some INCOME, tx_category := Some cat,
                                         tx_payment_type := Some cat\<rparr>)\<rparr>)"
  "tx_ok (ud\<lparr>ud_tx := Some ((get_tx ud)\<lparr>tx_amount := a\<rparr>)\<rparr>) = tx_ok ud"
  "tx_ok (ud\<lparr>ud_tx := Some ((get_tx ud)\<lparr>tx_comment := cm\<rparr>)\<rparr>) = tx_ok ud"
  by (simp_all add: tx_ok_def get_tx_def empty_user_data_def empty_tx_def EXPENSE_def INCOME_def)

lemma inv_prims [simp]:
  "income_inv (emit a w) = (income_inv w \<and> income_add_ok a)"
  "income_inv (send t kb w) = income_inv w"
  "income_inv (send_working t w) = income_inv w"
  "income_inv (set_working_message_id x w) = income_inv w"
  "income_inv (delete_working_message w) = income_inv w"
  "income_inv (edit_working t kb w) = income_inv w"
  "income_inv (set_categories cats w) = income_inv w"
  "income_inv (set_analysis_period s w) = income_inv w"
  "income_inv (set_balance_payment_type s w) = income_inv w"
  "income_inv (set_debt_type s w) = income_inv w"
  "income_inv (error_handler w) = income_inv w"
  "income_inv (snd (gas_request env p uid w)) = (income_inv w \<and> income_add_ok (GasRequest (gas_body p uid)))"
  by (auto simp: income_inv_def delete_working_message_def edit_working_def split: option.splits)

lemma inv_tx_updates [simp]:
  "income_inv w \<Longrightarrow> income_inv (w\<lparr>session := empty_user_data\<rparr>)"
  "income_inv w \<Longrightarrow> income_inv (set_tx empty_tx w)"
  "income_inv w \<Longrightarrow> income_inv (update_tx (\<lambda>t. t\<lparr>tx_type := Some EXPENSE, tx_category := Some cat\<rparr>) w)"
  "income_inv w \<Longrightarrow> income_inv (update_tx (\<lambda>t. t\<lparr>tx_type := Some INCOME, tx_category := Some cat,
                                                   tx_payment_type := Some cat\<rparr>) w)"
  "income_inv (update_tx (\<lambda>t. t\<lparr>tx_amount := a\<rparr>) w) = income_inv w"
  "income_inv (update_tx (\<lambda>t. t\<lparr>tx_comment := cm\<rparr>) w) = income_inv w"
  by (simp_all add: income_inv_def)

lemmas add_request_ok = add_request_ok0

lemmas bind_inv = bind_I [where I = income_inv]

lemma inv_main_screen_text_owner [simp]:
  "income_inv w \<Longrightarrow> income_inv (snd (main_screen_text_owner env uid w))"
  by (simp add: main_screen_text_owner_def;
      ((intro conjI impI allI bind_inv)?; simp add: io_return_def io_raise_def)+)

lemma inv_main_screen_text_employee [simp]:
  "income_inv w \<Longrightarrow> income_inv (snd (main_screen_text_employee env uid w))"
  by (simp add: main_screen_text_employee_def; ((intro conjI impI allI bind_inv)?; simp add: io_return_def)+)

lemma inv_get_categories [simp]:
  "income_inv w \<Longrightarrow> income_inv (snd (get_categories env uid w))"
  by (simp add: get_categories_def; ((intro conjI impI allI bind_inv)?; simp add: io_return_def)+)

lemma inv_main_screen [simp]:
  "income_inv w \<Longrightarrow> income_inv (snd (main_screen c env uid w))"
  by (simp add: main_screen_def; ((intro conjI impI allI bind_inv)?; simp add: io_return_def)+)

lemma inv_show_main_screen [simp]:
  "income_inv w \<Longrightarrow> income_inv (snd (show_main_screen c env uid w))"
  by (simp add: show_main_screen_def;
      ((intro conjI impI allI bind_inv)?; simp add: io_return_def split: prod.splits)+)

lemma inv_save_and_finish [simp]:
  assumes "income_inv w"
  shows "income_inv (snd (save_and_finish c env uid w))"
proof (cases "gas_request env (add_payload (get_tx (session w))) uid (delete_working_message w)")
  case (Pair r w')
  have "income_add_ok (GasRequest (gas_body (add_payload (get_tx (session w))) uid))"
    using assms add_request_ok by (simp add: income_inv_def)
  then have "income_inv w'"
    using inv_prims(12) [of env "add_payload (get_tx (session w))" uid "delete_working_message w"] assms
    by (simp add: Pair)
  then show ?thesis
    by (cases r) (simp_all add: save_and_finish_def Pair split: option.splits)
qed

lemma inv_cmd_start:
  "income_inv w \<Longrightarrow> income_inv (snd (cmd_start c env uid w))"
  by (simp add: cmd_start_def;
      ((intro conjI impI allI bind_inv)?; simp add: io_return_def split: sum.splits prod.splits option.splits)+)

lemma inv_on_menu:
  "income_inv w \<Longrightarrow> income_inv (snd (on_menu c env uid d mid w))"
  by (simp add: on_menu_def;
      ((intro conjI impI allI bind_inv)?; simp add: io_return_def split: sum.splits prod.splits option.splits)+)

lemma inv_choose_type:
  "income_inv w \<Longrightarrow> income_inv (snd (choose_type env uid d w))"
  by (simp add: choose_type_def;
      ((intro conjI impI allI bind_inv)?; simp add: io_return_def split: sum.splits prod.splits option.splits)+)

lemma inv_back_router:
  "income_inv w \<Longrightarrow> income_inv (snd (back_router c env uid d w))"
  by (simp add: back_router_def;
      ((intro conjI impI allI bind_inv)?; simp add: io_return_def split: sum.splits prod.splits option.splits)+)

lemma inv_expense_category:
  "income_inv w \<Longrightarrow> income_inv (snd (expense_category d w))"
  by (simp add: expense_category_def;
      ((intro conjI impI allI bind_inv)?; simp add: io_return_def split: sum.splits prod.splits option.splits)+)

lemma inv_income_category:
  "income_inv w \<Longrightarrow> income_inv (snd (income_category d w))"
  by (simp add: income_category_def;
      ((intro conjI impI allI bind_inv)?; simp add: io_return_def split: sum.splits prod.splits option.splits)+)

lemma inv_amount_received:
  "income_inv w \<Longrightarrow> income_inv (snd (amount_received c uid t w))"
  by (simp add: amount_received_def;
      ((intro conjI impI allI bind_inv)?; simp add: io_return_def split: sum.splits prod.splits option.splits)+)

lemma inv_comment_skip:
  "income_inv w \<Longrightarrow> income_inv (snd (comment_skip c env uid w))"
  by (simp add: comment_skip_def;
      ((intro conjI impI allI bind_inv)?; simp add: io_return_def split: sum.splits prod.splits option.splits)+)

lemma inv_comment_received:
  "income_inv w \<Longrightarrow> income_inv (snd (comment_received c env uid t w))"
  by (simp add: comment_received_def;
      ((intro conjI impI allI bind_inv)?; simp add: io_return_def split: sum.splits prod.splits option.splits)+)

lemma inv_analysis_period_handler:
  "income_inv w \<Longrightarrow> income_inv (snd (analysis_period_handler d w))"
  by (simp add: analysis_period_handler_def;
      ((intro conjI impI allI bind_inv)?; simp add: io_return_def split: sum.splits prod.splits option.splits)+)

lemma inv_analysis_type:
  "income_inv w \<Longrightarrow> income_inv (snd (analysis_type c env uid d w))"
  by (simp add: analysis_type_def;
      ((intro conjI impI allI bind_inv)?; simp add: io_return_def split: sum.splits prod.splits option.splits)+)

lemma inv_special_reports:
  "income_inv w \<Longrightarrow> income_inv (snd (special_reports c env uid d w))"
  by (simp add: special_reports_def;
      ((intro conjI impI allI bind_inv)?; simp add: io_return_def split: sum.splits prod.splits option.splits)+)

lemma inv_balance_edit_start:
  "income_inv w \<Longrightarrow> income_inv (snd (balance_edit_start d mid w))"
  by (simp add: balance_edit_start_def;
      ((intro conjI impI allI bind_inv)?; simp add: io_return_def split: sum.splits prod.splits option.splits)+)

lemma inv_balance_edit_received:
  "income_inv w \<Longrightarrow> income_inv (snd (balance_edit_received c env uid t w))"
  by (simp add: balance_edit_received_def;
      ((intro conjI impI allI bind_inv)?; simp add: io_return_def split: sum.splits prod.splits option.splits)+)

lemma inv_debts_choose_type:
  "income_inv w \<Longrightarrow> income_inv (snd (debts_choose_type env uid d w))"
  by (simp add: debts_choose_type_def;
      ((intro conjI impI allI bind_inv)?; simp add: io_return_def split: sum.splits prod.splits option.splits)+)

lemma inv_debts_edit_start:
  "income_inv w \<Longrightarrow> income_inv (snd (debts_edit_start mid w))"
  by (simp add: debts_edit_start_def;
      ((intro conjI impI allI bind_inv)?; simp add: io_return_def split: sum.splits prod.splits option.splits)+)

lemma inv_debts_edit_received:
  "income_inv w \<Longrightarrow> income_inv (snd (debts_edit_received c env uid t w))"
  by (simp add: debts_edit_received_def;
      ((intro conjI impI allI bind_inv)?; simp add: io_return_def split: sum.splits prod.splits option.splits)+)

lemma inv_cmd_help:
  "income_inv w \<Longrightarrow> income_inv (snd (cmd_help c user w))"
  by (simp add: cmd_help_def;
      ((intro conjI impI allI bind_inv)?; simp add: io_return_def split: sum.splits prod.splits option.splits)+)

lemma inv_payment_type_unreachable: "app_handler st ev \<noteq> Some H_payment_type_selected"
proof -
  have e: "first_accepting entry_points ev \<noteq> Some H_payment_type_selected"
    by (cases ev) (auto simp: first_accepting_def entry_points_def)
  have f: "first_accepting fallbacks ev \<noteq> Some H_payment_type_selected"
    by (cases ev) (auto simp: first_accepting_def fallbacks_def)
  have g: "first_accepting [(CommandName ''help'', H_cmd_help)] ev \<noteq> Some H_payment_type_selected"
    by (cases ev) (auto simp: first_accepting_def)
  have n: "(f, H_payment_type_selected) \<notin> set (handlers_of s)" for f s
    by (cases s) (simp_all add: handlers_of_simps)
  have t: "first_accepting (handlers_of s) ev \<noteq> Some H_payment_type_selected" for s
    using first_accepting_mem n by blast
  show ?thesis using e f g t
    by (auto simp: app_handler_def select_handler_def split: option.splits)
qed

lemmas inv_handlers = inv_cmd_start inv_on_menu inv_choose_type inv_back_router
  inv_expense_category inv_income_category inv_amount_received inv_comment_skip
  inv_comment_received inv_analysis_period_handler inv_analysis_type inv_special_reports
  inv_balance_edit_start inv_balance_edit_received inv_debts_choose_type inv_debts_edit_start
  inv_debts_edit_received inv_cmd_help

lemma inv_run_handler:
  assumes "income_inv w" and "h \<noteq> H_payment_type_selected"
  shows "income_inv (snd (run_handler c env uid h ev w))"
  using assms by (cases h; cases ev; simp add: inv_handlers io_return_def)

lemma wld_step:
  "wld (step c env uid b ev) =
     (case app_handler (conv b) ev of
        None \<Rightarrow> wld b
      | Some h \<Rightarrow>
          (case fst (run_handler c env uid h ev (wld b)) of
             Inl e \<Rightarrow> error_handler (snd (run_handler c env uid h ev (wld b)))
           | Inr r \<Rightarrow> snd (run_handler c env uid h ev (wld b))))"
  by (simp add: step_def split: option.splits prod.splits sum.splits)

lemma inv_step:
  assumes "income_inv (wld b)"
  shows "income_inv (wld (step c env uid b ev))"
proof (cases "app_handler (conv b) ev")
  case None
  then show ?thesis using assms by (simp add: wld_step)
next
  case (Some h)
  then have "h \<noteq> H_payment_type_selected" using inv_payment_type_unreachable by metis
  from inv_run_handler [OF assms this] show ?thesis
    by (simp add: wld_step Some split: sum.splits)
qed

lemma inv_run:
  assumes "income_inv (wld b)"
  shows "income_inv (wld (run c env uid b evs))"
  using assms
proof (induction evs arbitrary: b)
  case Nil
  then show ?case by (simp add: run_def)
next
  case (Cons ev evs)
  from Cons.IH [OF inv_step [OF Cons.prems]] show ?case by (simp add: run_def)
qed

lemma inv_initial: "income_inv (wld initial_bot)"
  by (simp add: income_inv_def initial_bot_def)

lemma income_scenario_run:
  "run demo_config demo_env 1 initial_bot income_scenario =
     \<lparr>conv = Some ST_MENU,
      wld = \<lparr>session = \<lparr>working_message_id = None,
                 ud_tx = Some (demo_income_draft\<lparr>tx_comment := Some (ustr_of ''Acme'')\<rparr>),
                 ud_categories = Some demo_categories, analysis_period = None,
                 balance_payment_type = None, debt_type = None\<rparr>,
             requests = 6, next_message_id = 3,
             trace = trace (wld demo_income_bot)
               @ [DeleteUserMessage, DeleteMessage 1,
                  GasRequest (gas_body (add_payload
                     (demo_income_draft\<lparr>tx_comment := Some (ustr_of ''Acme'')\<rparr>)) 1),
                  SendMessage (SAVED (demo_income_draft\<lparr>tx_comment := Some (ustr_of ''Acme'')\<rparr>)) None]
               @ owner_main_screen\<rparr>\<rparr>"
proof -
  have s: "strip (ustr_of ''Acme'') = ustr_of ''Acme''"
    by (simp add: strip_def is_space_def ustr_of_def)
  show ?thesis
    by (simp add: run_def income_scenario_def income_entry_def demo_income_bot_def
        demo_income_draft_def owner_main_screen_def eval_defs parse_2500 s)
qed

text \<open>
  C10. Whatever a user sends, from the first update on, every \<open>add\<close> request of an
  income record that the bot posts carries a category, and its payment type is that
  category. The payload takes both fields from the draft, and \<open>income_category\<close>, the
  only handler that makes a draft an income, stores the category the user selected in
  both fields of the draft.
\<close>

theorem income_payment_type_is_category:
  "list_all income_add_ok (trace (wld (run c env uid initial_bot evs)))
   \<and> add_payload t ''category'' = Some (opt_str (tx_category t))
   \<and> add_payload t ''payment_type'' = Some (opt_str (tx_payment_type t))
   \<and> (index (cached_incomes (session w)) (py_int (field1 d)) = Inr cat \<longrightarrow>
        ud_tx (session (snd (income_category d w))) =
          Some ((get_tx (session w))\<lparr>tx_type := Some INCOME, tx_category := Some cat,
                                      tx_payment_type := Some cat\<rparr>))"
proof (intro conjI impI)
  show "list_all income_add_ok (trace (wld (run c env uid initial_bot evs)))"
    using inv_run [OF inv_initial, of c env uid evs] by (simp add: income_inv_def)
next
  show "add_payload t ''category'' = Some (opt_str (tx_category t))"
    by (simp add: add_payload_def)
next
  show "add_payload t ''payment_type'' = Some (opt_str (tx_payment_type t))"
    by (simp add: add_payload_def)
next
  assume "index (cached_incomes (session w)) (py_int (field1 d)) = Inr cat"
  then show "ud_tx (session (snd (income_category d w))) =
          Some ((get_tx (session w))\<lparr>tx_type := Some INCOME, tx_category := Some cat,
                                      tx_payment_type := Some cat\<rparr>)"
    by (simp add: income_category_def)
qed

theorem income_payment_type_is_category_witness:
  "GasRequest (gas_body (add_payload (demo_income_draft\<lparr>tx_comment := Some (ustr_of ''Acme'')\<rparr>)) 1)
     \<in> set (trace (wld (run demo_config demo_env 1 initial_bot income_scenario)))
   \<and> list_all income_add_ok (trace (wld (run demo_config demo_env 1 initial_bot income_scenario)))
   \<and> add_payload (demo_income_draft\<lparr>tx_comment := Some (ustr_of ''Acme'')\<rparr>) ''category''
       = Some (PStr CAT_BN)
   \<and> add_payload (demo_income_draft\<lparr>tx_comment := Some (ustr_of ''Acme'')\<rparr>) ''payment_type''
       = Some (PStr CAT_BN)
   \<and> index (cached_incomes (session (wld demo_income_bot))) (py_int (field1 ''inccat:1''))
       = Inr CAT_BN
   \<and> ud_tx (session (snd (income_category ''inccat:1'' (wld demo_income_bot))))
       = Some demo_income_draft"
proof -
  have i: "index (cached_incomes (session (wld demo_income_bot))) (py_int (field1 ''inccat:1''))
       = Inr CAT_BN"
    by (simp add: demo_income_bot_def demo_categories_def cached_incomes_def index_def
        py_int_def field1_def is_digit_char_def)
  have g: "(get_tx (session (wld demo_income_bot)))\<lparr>tx_type := Some INCOME,
              tx_category := Some CAT_BN, tx_payment_type := Some CAT_BN\<rparr> = demo_income_draft"
    by (simp add: demo_income_bot_def demo_income_draft_def get_tx_def)
  have m: "GasRequest (gas_body (add_payload (demo_income_draft\<lparr>tx_comment := Some (ustr_of ''Acme'')\<rparr>)) 1)
     \<in> set (trace (wld (run demo_config demo_env 1 initial_bot income_scenario)))"
    by (simp add: income_scenario_run)
  show ?thesis
    using income_payment_type_is_category [of demo_config demo_env 1 income_scenario
        "demo_income_draft\<lparr>tx_comment := Some (ustr_of ''Acme'')\<rparr>" "wld demo_income_bot"
        "''inccat:1''" CAT_BN] i g m
    by (simp add: demo_income_draft_def opt_str_def)
qed

section \<open>Back navigation\<close>











end
